theory Spec2Isabelle
  imports Main
begin

section \<open>JavaScript primitives used by the exporters and the interpreter\<close>

text \<open>
  Strings are modelled as \<^typ>\<open>string\<close>. Case conversion is the ASCII one: the
  functions below map the letters \<^verbatim>\<open>a\<close> to \<^verbatim>\<open>z\<close> and leave every other character
  alone, so they agree with \<^verbatim>\<open>toUpperCase\<close> and \<^verbatim>\<open>toLowerCase\<close> on ASCII strings
  only (the source's functions also map letters outside ASCII, and may lengthen the
  string). No general statement below depends on how a letter is mapped; the
  evaluations at concrete inputs use ASCII names.
\<close>

definition toUpperChar :: \<open>char \<Rightarrow> char\<close> where
  \<open>toUpperChar c =
     (case map_of (zip ''abcdefghijklmnopqrstuvwxyz'' ''ABCDEFGHIJKLMNOPQRSTUVWXYZ'') c of
        Some u \<Rightarrow> u
      | None \<Rightarrow> c)\<close>

definition toLowerChar :: \<open>char \<Rightarrow> char\<close> where
  \<open>toLowerChar c =
     (case map_of (zip ''ABCDEFGHIJKLMNOPQRSTUVWXYZ'' ''abcdefghijklmnopqrstuvwxyz'') c of
        Some l \<Rightarrow> l
      | None \<Rightarrow> c)\<close>

definition toUpperCase :: \<open>string \<Rightarrow> string\<close> where
  \<open>toUpperCase s = map toUpperChar s\<close>

definition toLowerCase :: \<open>string \<Rightarrow> string\<close> where
  \<open>toLowerCase s = map toLowerChar s\<close>

text \<open>\<^verbatim>\<open>Array.prototype.join\<close> on an array of strings.\<close>

fun js_join :: \<open>string \<Rightarrow> string list \<Rightarrow> string\<close> where
  \<open>js_join sep [] = []\<close>
| \<open>js_join sep [x] = x\<close>
| \<open>js_join sep (x # y # ys) = x @ sep @ js_join sep (y # ys)\<close>

text \<open>\<^verbatim>\<open>String.prototype.includes\<close>: the needle occurs as a contiguous substring.\<close>

fun str_includes :: \<open>string \<Rightarrow> string \<Rightarrow> bool\<close> where
  \<open>str_includes [] needle = (needle = [])\<close>
| \<open>str_includes (c # cs) needle =
     (take (length needle) (c # cs) = needle \<or> str_includes cs needle)\<close>

text \<open>\<^verbatim>\<open>String.prototype.split\<close> with a one-character separator.\<close>

fun split :: \<open>char \<Rightarrow> string \<Rightarrow> string list\<close> where
  \<open>split d [] = [[]]\<close>
| \<open>split d (c # cs) =
     (if c = d then [] # split d cs
      else (case split d cs of
              p # ps \<Rightarrow> (c # p) # ps
            | [] \<Rightarrow> [[c]]))\<close>

text \<open>Truthiness of an optional string: \<^verbatim>\<open>undefined\<close>, \<^verbatim>\<open>null\<close> and \<^verbatim>\<open>''\<close> are falsy.\<close>

definition truthy :: \<open>string option \<Rightarrow> bool\<close> where
  \<open>truthy v = (case v of None \<Rightarrow> False | Some s \<Rightarrow> s \<noteq> [])\<close>

text \<open>\<^verbatim>\<open>.filter(Boolean)\<close> on an array of strings and nulls.\<close>

fun filterBoolean :: \<open>string option list \<Rightarrow> string list\<close> where
  \<open>filterBoolean [] = []\<close>
| \<open>filterBoolean (p # ps) =
     (case p of
        None \<Rightarrow> filterBoolean ps
      | Some s \<Rightarrow> (if s = [] then filterBoolean ps else s # filterBoolean ps))\<close>

text \<open>
  Decimal rendering of an integer, as a template literal renders an integral number
  of magnitude below \<^verbatim>\<open>1e21\<close>; from there on the source prints an exponent form,
  which this rendering does not follow.
\<close>

definition digit_char :: \<open>nat \<Rightarrow> char\<close> where
  \<open>digit_char n = ''0123456789'' ! (n mod 10)\<close>

function string_of_nat :: \<open>nat \<Rightarrow> string\<close> where
  \<open>string_of_nat n =
     (if n < 10 then [digit_char n]
      else string_of_nat (n div 10) @ [digit_char (n mod 10)])\<close>
  by pat_completeness auto
termination
  by (relation \<open>measure id\<close>) auto

declare string_of_nat.simps [simp del]

definition string_of_int :: \<open>int \<Rightarrow> string\<close> where
  \<open>string_of_int i =
     (if i < 0 then ''-'' @ string_of_nat (nat (- i)) else string_of_nat (nat i))\<close>

section \<open>The Transform representation\<close>

datatype direction = ASC | DESC

fun direction_str :: \<open>direction \<Rightarrow> string\<close> where
  \<open>direction_str ASC = ''ASC''\<close>
| \<open>direction_str DESC = ''DESC''\<close>

type_synonym token_position = nat

record TransformOrderBy =
  ob_table :: string
  ob_column :: string
  ob_direction :: direction

record Aggregation =
  agg_function :: string
  agg_partitionBy :: \<open>string list option\<close>
  agg_orderBy :: \<open>TransformOrderBy list option\<close>

record Window =
  win_function :: string
  win_partitionBy :: \<open>string list option\<close>
  win_orderBy :: \<open>TransformOrderBy list option\<close>
  win_frame :: \<open>string option\<close>

record TransformColumn =
  sourceTable :: string
  sourceColumn :: string
  expression :: \<open>string option\<close>
  col_alias :: \<open>string option\<close>
  aggregation :: \<open>Aggregation option\<close>
  window :: \<open>Window option\<close>

record TransformSource =
  src_name :: string
  src_schemaName :: \<open>string option\<close>
  src_alias :: \<open>string option\<close>

record TransformJoin =
  leftTable :: string
  leftColumn :: string
  operator :: string
  rightTable :: string
  rightColumn :: string
  join_token :: token_position

record TransformFilter =
  flt_expression :: string
  flt_token :: token_position

record DerivedColumn =
  dc_name :: string
  dc_expression :: string
  dc_token :: token_position

record NestedTransform =
  transformName :: string
  nested_sources :: \<open>string list\<close>

text \<open>
  The exporters test \<^verbatim>\<open>sources\<close>, \<^verbatim>\<open>columns\<close>, \<^verbatim>\<open>joins\<close>, \<^verbatim>\<open>filters\<close>,
  \<^verbatim>\<open>groupBy\<close>, \<^verbatim>\<open>orderBy\<close> and \<^verbatim>\<open>limit\<close> for absence, so each of them is optional
  here. The interpreter's constructor starts the first four as empty arrays.
\<close>

record Transform =
  name :: string
  schemaName :: \<open>string option\<close>
  sources :: \<open>TransformSource list option\<close>
  columns :: \<open>TransformColumn list option\<close>
  joins :: \<open>TransformJoin list option\<close>
  filters :: \<open>TransformFilter list option\<close>
  groupBy :: \<open>string list option\<close>
  orderBy :: \<open>TransformOrderBy list option\<close>
  limit :: \<open>int option\<close>
  derivedColumns :: \<open>DerivedColumn list option\<close>
  nestedTransform :: \<open>NestedTransform option\<close>

text \<open>
  A thrown \<^verbatim>\<open>Error\<close> carries its message; \<^verbatim>\<open>TypeError\<close> is what reading a property of
  \<^verbatim>\<open>undefined\<close> raises.
\<close>

datatype error = Error string | TypeError

text \<open>\<^verbatim>\<open>xs && xs.length > 0\<close> for an optional array.\<close>

definition nonEmpty :: \<open>'a list option \<Rightarrow> bool\<close> where
  \<open>nonEmpty xs = (case xs of None \<Rightarrow> False | Some ys \<Rightarrow> length ys > 0)\<close>

text \<open>\<^verbatim>\<open>xs || []\<close> for an optional array.\<close>

definition orEmpty :: \<open>'a list option \<Rightarrow> 'a list\<close> where
  \<open>orEmpty xs = (case xs of None \<Rightarrow> [] | Some ys \<Rightarrow> ys)\<close>

section \<open>TransformExporter: SQL views\<close>

text \<open>The order term \<^verbatim>\<open>"${o.table}"."${o.column}" ${o.direction}\<close>.\<close>

definition orderTerm :: \<open>TransformOrderBy \<Rightarrow> string\<close> where
  \<open>orderTerm ob = ''"'' @ ob_table ob @ ''"."'' @ ob_column ob @ ''" '' @ direction_str (ob_direction ob)\<close>

text \<open>
  The column reference
  \<^verbatim>\<open>col.sourceTable ? `"${col.sourceTable}"."${col.sourceColumn}"` : `"${col.sourceColumn}"`\<close>,
  which the source writes out in each of its column builders.
\<close>

definition columnRef :: \<open>TransformColumn \<Rightarrow> string\<close> where
  \<open>columnRef col =
     (if sourceTable col \<noteq> [] then ''"'' @ sourceTable col @ ''"."'' @ sourceColumn col @ ''"''
      else ''"'' @ sourceColumn col @ ''"'')\<close>

text \<open>\<^verbatim>\<open>col.alias ? ` AS "${col.alias}"` : ''\<close>.\<close>

definition aliasSuffix :: \<open>string option \<Rightarrow> string\<close> where
  \<open>aliasSuffix a = (if truthy a then '' AS "'' @ the a @ ''"'' else [])\<close>

definition buildAggregationColumn :: \<open>TransformColumn \<Rightarrow> string \<Rightarrow> error + string\<close> where
  \<open>buildAggregationColumn col dialect =
     (case aggregation col of
        None \<Rightarrow> Inl TypeError
      | Some agg \<Rightarrow>
          let func = toUpperCase (agg_function agg);
              expr = columnRef col;
              aggregateExpr0 = func @ ''('' @ expr @ '')'';
              aggregateExpr =
                (if nonEmpty (agg_partitionBy agg) then
                   let partitionCols =
                         js_join '', '' (map (\<lambda>p. ''"'' @ p @ ''"'') (orEmpty (agg_partitionBy agg)));
                       overClause0 = ''PARTITION BY '' @ partitionCols;
                       overClause =
                         (if nonEmpty (agg_orderBy agg) then
                            overClause0 @ '' ORDER BY ''
                              @ js_join '', '' (map orderTerm (orEmpty (agg_orderBy agg)))
                          else overClause0)
                   in func @ ''('' @ expr @ '') OVER ('' @ overClause @ '')''
                 else aggregateExpr0)
          in Inr (''  '' @ aggregateExpr @ aliasSuffix (col_alias col)))\<close>

definition rankFamily :: \<open>string list\<close> where
  \<open>rankFamily = [''ROW_NUMBER'', ''RANK'', ''DENSE_RANK'', ''PERCENT_RANK'', ''CUME_DIST'']\<close>

definition valueFamily :: \<open>string list\<close> where
  \<open>valueFamily = [''LAG'', ''LEAD'', ''NTH_VALUE'', ''FIRST_VALUE'', ''LAST_VALUE'']\<close>

definition buildWindowColumn :: \<open>TransformColumn \<Rightarrow> string \<Rightarrow> error + string\<close> where
  \<open>buildWindowColumn col dialect =
     (case window col of
        None \<Rightarrow> Inl TypeError
      | Some w \<Rightarrow>
          let func = toUpperCase (win_function w);
              args =
                (if func \<in> set valueFamily then columnRef col
                 else if func \<in> set rankFamily then []
                 else columnRef col);
              overClause1 =
                (if nonEmpty (win_partitionBy w) then
                   ''PARTITION BY ''
                     @ js_join '', '' (map (\<lambda>p. ''"'' @ p @ ''"'') (orEmpty (win_partitionBy w)))
                 else []);
              overClause2 =
                (if nonEmpty (win_orderBy w) then
                   overClause1 @ (if overClause1 \<noteq> [] then '' '' else [])
                     @ ''ORDER BY '' @ js_join '', '' (map orderTerm (orEmpty (win_orderBy w)))
                 else overClause1);
              overClause =
                (if truthy (win_frame w) then
                   overClause2 @ (if overClause2 \<noteq> [] then '' '' else []) @ the (win_frame w)
                 else overClause2);
              windowExpr = (if args \<noteq> [] then func @ ''('' @ args @ '')'' else func @ ''()'');
              fullExpr =
                (if overClause \<noteq> [] then windowExpr @ '' OVER ('' @ overClause @ '')''
                 else windowExpr @ '' OVER ()'')
          in Inr (''  '' @ fullExpr @ aliasSuffix (col_alias col)))\<close>

text \<open>The callback of \<^verbatim>\<open>transform.columns.map\<close> in \<^verbatim>\<open>buildSelectClause\<close>.\<close>

definition selectColumn :: \<open>string \<Rightarrow> TransformColumn \<Rightarrow> error + string\<close> where
  \<open>selectColumn dialect col =
     (if aggregation col \<noteq> None then buildAggregationColumn col dialect
      else if window col \<noteq> None then buildWindowColumn col dialect
      else if truthy (expression col) \<and> expression col \<noteq> Some [] \<and> sourceColumn col = [] then
        Inr (''  '' @ the (expression col) @ aliasSuffix (col_alias col))
      else Inr (''  '' @ columnRef col @ aliasSuffix (col_alias col)))\<close>

text \<open>\<^verbatim>\<open>Array.prototype.map\<close> with a callback that may throw: the first throw wins.\<close>

fun mapThrowing :: \<open>('a \<Rightarrow> error + 'b) \<Rightarrow> 'a list \<Rightarrow> error + 'b list\<close> where
  \<open>mapThrowing f [] = Inr []\<close>
| \<open>mapThrowing f (x # xs) =
     (case f x of
        Inl e \<Rightarrow> Inl e
      | Inr y \<Rightarrow> (case mapThrowing f xs of Inl e \<Rightarrow> Inl e | Inr ys \<Rightarrow> Inr (y # ys)))\<close>

definition buildSelectClause :: \<open>Transform \<Rightarrow> string \<Rightarrow> error + string\<close> where
  \<open>buildSelectClause transform dialect =
     (if \<not> nonEmpty (columns transform) then Inr ''  *''
      else (case mapThrowing (selectColumn dialect) (orEmpty (columns transform)) of
              Inl e \<Rightarrow> Inl e
            | Inr columnExpressions \<Rightarrow> Inr (js_join '',\<newline>'' columnExpressions)))\<close>

text \<open>The table name \<^verbatim>\<open>schemaName ? `"${schemaName}"."${name}"` : `"${name}"`\<close> of a source.\<close>

definition tableName :: \<open>TransformSource \<Rightarrow> string\<close> where
  \<open>tableName source =
     (if truthy (src_schemaName source) then
        ''"'' @ the (src_schemaName source) @ ''"."'' @ src_name source @ ''"''
      else ''"'' @ src_name source @ ''"'')\<close>

definition buildFromClause :: \<open>Transform \<Rightarrow> string \<Rightarrow> error + string\<close> where
  \<open>buildFromClause transform dialect =
     (if \<not> nonEmpty (sources transform) then
        Inl (Error (''Transform '' @ name transform @ '' has no sources''))
      else (case orEmpty (sources transform) of
              [] \<Rightarrow> Inl TypeError
            | firstSource # _ \<Rightarrow> Inr (tableName firstSource @ aliasSuffix (src_alias firstSource))))\<close>

text \<open>The predicate of \<^verbatim>\<open>(transform.joins || []).filter\<close> for one source.\<close>

definition joinMatches :: \<open>TransformSource \<Rightarrow> TransformJoin \<Rightarrow> bool\<close> where
  \<open>joinMatches source j = (rightTable j = src_name source \<or> leftTable j = src_name source)\<close>

text \<open>One \<^verbatim>\<open>ON\<close> condition \<^verbatim>\<open>`${leftRef} ${j.operator} ${rightRef}`\<close>.\<close>

definition onClause :: \<open>TransformJoin \<Rightarrow> string\<close> where
  \<open>onClause j =
     (let leftRef = ''"'' @ leftTable j @ ''"."'' @ leftColumn j @ ''"'';
          rightRef = ''"'' @ rightTable j @ ''"."'' @ rightColumn j @ ''"''
      in leftRef @ '' '' @ operator j @ '' '' @ rightRef)\<close>

text \<open>
  The body of \<^verbatim>\<open>remainingSources.forEach\<close>: each source pushes one line onto the
  array \<^verbatim>\<open>joins\<close>, threaded here as the last argument.
\<close>

fun forEachSource :: \<open>TransformJoin list \<Rightarrow> TransformSource list \<Rightarrow> string list \<Rightarrow> string list\<close> where
  \<open>forEachSource js [] pushed = pushed\<close>
| \<open>forEachSource js (source # rest) pushed =
     (let joinConditions = filter (joinMatches source) js;
          tn = tableName source;
          al = aliasSuffix (src_alias source)
      in if length joinConditions > 0 then
           forEachSource js rest
             (pushed @ [''  INNER JOIN '' @ tn @ al @ '' ON ''
                          @ js_join '' AND '' (map onClause joinConditions)])
         else forEachSource js rest (pushed @ [''  CROSS JOIN '' @ tn @ al]))\<close>

definition buildJoinClauses :: \<open>Transform \<Rightarrow> string \<Rightarrow> string list\<close> where
  \<open>buildJoinClauses transform dialect =
     (if length (orEmpty (sources transform)) \<le> 1 then []
      else forEachSource (orEmpty (joins transform)) (drop 1 (orEmpty (sources transform))) [])\<close>

definition buildWhereClause :: \<open>Transform \<Rightarrow> string \<Rightarrow> string option\<close> where
  \<open>buildWhereClause transform dialect =
     (if \<not> nonEmpty (filters transform) then None
      else Some (''WHERE '' @ js_join '' AND '' (map flt_expression (orEmpty (filters transform)))))\<close>

text \<open>The callback of \<^verbatim>\<open>transform.groupBy.map\<close>.\<close>

definition groupByColumn :: \<open>string \<Rightarrow> string\<close> where
  \<open>groupByColumn col =
     (if str_includes col ''.'' then
        (case split (CHR ''.'') col of
           p0 # p1 # _ \<Rightarrow> ''"'' @ p0 @ ''"."'' @ p1 @ ''"''
         | _ \<Rightarrow> ''"undefined"."undefined"'')
      else ''"'' @ col @ ''"'')\<close>

definition buildGroupByClause :: \<open>Transform \<Rightarrow> string \<Rightarrow> string option\<close> where
  \<open>buildGroupByClause transform dialect =
     (if \<not> nonEmpty (groupBy transform) then None
      else Some (''GROUP BY '' @ js_join '', '' (map groupByColumn (orEmpty (groupBy transform)))))\<close>

definition buildOrderByClause :: \<open>Transform \<Rightarrow> string \<Rightarrow> string option\<close> where
  \<open>buildOrderByClause transform dialect =
     (if \<not> nonEmpty (orderBy transform) then None
      else Some (''ORDER BY '' @ js_join '', '' (map orderTerm (orEmpty (orderBy transform)))))\<close>

text \<open>\<^verbatim>\<open>!transform.limit\<close> holds for an absent limit and for the number 0.\<close>

definition buildLimitClause :: \<open>Transform \<Rightarrow> string \<Rightarrow> string option\<close> where
  \<open>buildLimitClause transform dialect =
     (case limit transform of
        None \<Rightarrow> None
      | Some n \<Rightarrow> (if n = 0 then None else Some (''LIMIT '' @ string_of_int n)))\<close>

definition exportTransform :: \<open>Transform \<Rightarrow> string \<Rightarrow> error + string\<close> where
  \<open>exportTransform transform dialect =
     (let viewName = name transform in
      case buildSelectClause transform dialect of
        Inl e \<Rightarrow> Inl e
      | Inr selectClause \<Rightarrow>
          (case buildFromClause transform dialect of
             Inl e \<Rightarrow> Inl e
           | Inr fromClause \<Rightarrow>
               let joinClauses = buildJoinClauses transform dialect;
                   whereClause = buildWhereClause transform dialect;
                   groupByClause = buildGroupByClause transform dialect;
                   orderByClause = buildOrderByClause transform dialect;
                   limitClause = buildLimitClause transform dialect;
                   parts = filterBoolean
                     ([Some (''-- Transform: '' @ viewName),
                       Some (''CREATE OR REPLACE VIEW "'' @ viewName @ ''" AS''),
                       Some ''SELECT'',
                       Some selectClause,
                       Some (''FROM '' @ fromClause)]
                      @ map Some joinClauses
                      @ [whereClause, groupByClause, orderByClause, limitClause])
               in Inr (js_join ''\<newline>'' parts @ '';\<newline>'')))\<close>

section \<open>DbtExporter: dbt models\<close>

text \<open>
  The dbt builders repeat the clause construction with bare identifiers. The function
  \<^verbatim>\<open>_.snakeCase\<close> comes from a library outside the repository and is a parameter
  \<open>snakeCase\<close> of the builders that call it.
\<close>

definition dbt_orderTerm :: \<open>TransformOrderBy \<Rightarrow> string\<close> where
  \<open>dbt_orderTerm ob = ob_table ob @ ''.'' @ ob_column ob @ '' '' @ direction_str (ob_direction ob)\<close>

definition dbt_columnRef :: \<open>TransformColumn \<Rightarrow> string\<close> where
  \<open>dbt_columnRef col =
     (if sourceTable col \<noteq> [] then sourceTable col @ ''.'' @ sourceColumn col
      else sourceColumn col)\<close>

text \<open>\<^verbatim>\<open>col.alias ? ` AS ${col.alias}` : ''\<close>.\<close>

definition dbt_aliasSuffix :: \<open>string option \<Rightarrow> string\<close> where
  \<open>dbt_aliasSuffix a = (if truthy a then '' AS '' @ the a else [])\<close>

definition dbt_buildAggregationColumn :: \<open>TransformColumn \<Rightarrow> error + string\<close> where
  \<open>dbt_buildAggregationColumn col =
     (case aggregation col of
        None \<Rightarrow> Inl TypeError
      | Some agg \<Rightarrow>
          let func = toUpperCase (agg_function agg);
              expr = dbt_columnRef col;
              aggregateExpr0 = func @ ''('' @ expr @ '')'';
              aggregateExpr =
                (if nonEmpty (agg_partitionBy agg) then
                   let partitionCols = js_join '', '' (orEmpty (agg_partitionBy agg));
                       overClause0 = ''PARTITION BY '' @ partitionCols;
                       overClause =
                         (if nonEmpty (agg_orderBy agg) then
                            overClause0 @ '' ORDER BY ''
                              @ js_join '', '' (map dbt_orderTerm (orEmpty (agg_orderBy agg)))
                          else overClause0)
                   in func @ ''('' @ expr @ '') OVER ('' @ overClause @ '')''
                 else aggregateExpr0)
          in Inr (''  '' @ aggregateExpr @ dbt_aliasSuffix (col_alias col)))\<close>

definition dbt_buildWindowColumn :: \<open>TransformColumn \<Rightarrow> error + string\<close> where
  \<open>dbt_buildWindowColumn col =
     (case window col of
        None \<Rightarrow> Inl TypeError
      | Some w \<Rightarrow>
          let func = toUpperCase (win_function w);
              args =
                (if func \<in> set valueFamily then dbt_columnRef col
                 else if func \<notin> set rankFamily then dbt_columnRef col
                 else []);
              overClause1 =
                (if nonEmpty (win_partitionBy w) then
                   ''PARTITION BY '' @ js_join '', '' (orEmpty (win_partitionBy w))
                 else []);
              overClause2 =
                (if nonEmpty (win_orderBy w) then
                   overClause1 @ (if overClause1 \<noteq> [] then '' '' else [])
                     @ ''ORDER BY '' @ js_join '', '' (map dbt_orderTerm (orEmpty (win_orderBy w)))
                 else overClause1);
              overClause =
                (if truthy (win_frame w) then
                   overClause2 @ (if overClause2 \<noteq> [] then '' '' else []) @ the (win_frame w)
                 else overClause2);
              windowExpr = (if args \<noteq> [] then func @ ''('' @ args @ '')'' else func @ ''()'');
              fullExpr =
                (if overClause \<noteq> [] then windowExpr @ '' OVER ('' @ overClause @ '')''
                 else windowExpr @ '' OVER ()'')
          in Inr (''  '' @ fullExpr @ dbt_aliasSuffix (col_alias col)))\<close>

definition dbt_selectColumn :: \<open>TransformColumn \<Rightarrow> error + string\<close> where
  \<open>dbt_selectColumn col =
     (if aggregation col \<noteq> None then dbt_buildAggregationColumn col
      else if window col \<noteq> None then dbt_buildWindowColumn col
      else if truthy (expression col) \<and> expression col \<noteq> Some [] \<and> sourceColumn col = [] then
        Inr (''  '' @ the (expression col) @ dbt_aliasSuffix (col_alias col))
      else Inr (''  '' @ dbt_columnRef col @ dbt_aliasSuffix (col_alias col)))\<close>

definition dbt_buildSelectClause :: \<open>Transform \<Rightarrow> error + string\<close> where
  \<open>dbt_buildSelectClause transform =
     (if \<not> nonEmpty (columns transform) then Inr ''  *''
      else (case mapThrowing dbt_selectColumn (orEmpty (columns transform)) of
              Inl e \<Rightarrow> Inl e
            | Inr columnExpressions \<Rightarrow> Inr (js_join '',\<newline>'' columnExpressions)))\<close>

text \<open>\<^verbatim>\<open>{{ ref('${refName}') }} AS ${alias}\<close> with \<^verbatim>\<open>alias = source.alias || source.name\<close>.\<close>

definition dbt_ref :: \<open>(string \<Rightarrow> string) \<Rightarrow> TransformSource \<Rightarrow> string\<close> where
  \<open>dbt_ref snakeCase source =
     (let refName = snakeCase (src_name source);
          al = (if truthy (src_alias source) then the (src_alias source) else src_name source)
      in ''{{ ref('' @ [CHR 0x27] @ refName @ [CHR 0x27] @ '') }} AS '' @ al)\<close>

definition dbt_buildFromClause :: \<open>(string \<Rightarrow> string) \<Rightarrow> Transform \<Rightarrow> error + string\<close> where
  \<open>dbt_buildFromClause snakeCase transform =
     (if \<not> nonEmpty (sources transform) then
        Inl (Error (''Transform '' @ name transform @ '' has no sources''))
      else (case orEmpty (sources transform) of
              [] \<Rightarrow> Inl TypeError
            | firstSource # _ \<Rightarrow> Inr (dbt_ref snakeCase firstSource)))\<close>

definition dbt_onClause :: \<open>TransformJoin \<Rightarrow> string\<close> where
  \<open>dbt_onClause j =
     leftTable j @ ''.'' @ leftColumn j @ '' '' @ operator j @ '' ''
       @ rightTable j @ ''.'' @ rightColumn j\<close>

fun dbt_forEachSource ::
  \<open>(string \<Rightarrow> string) \<Rightarrow> TransformJoin list \<Rightarrow> TransformSource list \<Rightarrow> string list \<Rightarrow> string list\<close>
where
  \<open>dbt_forEachSource snakeCase js [] pushed = pushed\<close>
| \<open>dbt_forEachSource snakeCase js (source # rest) pushed =
     (let joinConditions = filter (joinMatches source) js in
      if length joinConditions > 0 then
        dbt_forEachSource snakeCase js rest
          (pushed @ [''  INNER JOIN '' @ dbt_ref snakeCase source @ '' ON ''
                       @ js_join '' AND '' (map dbt_onClause joinConditions)])
      else dbt_forEachSource snakeCase js rest
             (pushed @ [''  CROSS JOIN '' @ dbt_ref snakeCase source]))\<close>

definition dbt_buildJoinClauses :: \<open>(string \<Rightarrow> string) \<Rightarrow> Transform \<Rightarrow> string list\<close> where
  \<open>dbt_buildJoinClauses snakeCase transform =
     (if length (orEmpty (sources transform)) \<le> 1 then []
      else dbt_forEachSource snakeCase (orEmpty (joins transform))
             (drop 1 (orEmpty (sources transform))) [])\<close>

definition dbt_buildGroupByClause :: \<open>Transform \<Rightarrow> string option\<close> where
  \<open>dbt_buildGroupByClause transform =
     (if \<not> nonEmpty (groupBy transform) then None
      else Some (''GROUP BY '' @ js_join '', '' (orEmpty (groupBy transform))))\<close>

definition dbt_buildOrderByClause :: \<open>Transform \<Rightarrow> string option\<close> where
  \<open>dbt_buildOrderByClause transform =
     (if \<not> nonEmpty (orderBy transform) then None
      else Some (''ORDER BY '' @ js_join '', '' (map dbt_orderTerm (orEmpty (orderBy transform)))))\<close>

definition dbt_buildWhereClause :: \<open>Transform \<Rightarrow> string option\<close> where
  \<open>dbt_buildWhereClause transform =
     (if \<not> nonEmpty (filters transform) then None
      else Some (''WHERE '' @ js_join '' AND '' (map flt_expression (orEmpty (filters transform)))))\<close>

definition dbt_buildLimitClause :: \<open>Transform \<Rightarrow> string option\<close> where
  \<open>dbt_buildLimitClause transform =
     (case limit transform of
        None \<Rightarrow> None
      | Some n \<Rightarrow> (if n = 0 then None else Some (''LIMIT '' @ string_of_int n)))\<close>

definition generateDbtModel :: \<open>(string \<Rightarrow> string) \<Rightarrow> Transform \<Rightarrow> error + string\<close> where
  \<open>generateDbtModel snakeCase transform =
     (case dbt_buildSelectClause transform of
        Inl e \<Rightarrow> Inl e
      | Inr selectClause \<Rightarrow>
          (case dbt_buildFromClause snakeCase transform of
             Inl e \<Rightarrow> Inl e
           | Inr fromClause \<Rightarrow>
               let joinClauses = dbt_buildJoinClauses snakeCase transform;
                   whereClause = dbt_buildWhereClause transform;
                   groupByClause = dbt_buildGroupByClause transform;
                   orderByClause = dbt_buildOrderByClause transform;
                   limitClause = dbt_buildLimitClause transform;
                   parts = filterBoolean
                     ([Some ''{{'',
                       Some ''  config('',
                       Some (''    materialized='' @ [CHR 0x27] @ ''view'' @ [CHR 0x27]),
                       Some ''  )'',
                       Some ''}}'',
                       Some [],
                       Some (''-- Transform: '' @ name transform),
                       Some ''-- Generated from DBML'',
                       Some [],
                       Some ''SELECT'',
                       Some selectClause,
                       Some (''FROM '' @ fromClause)]
                      @ map Some joinClauses
                      @ [whereClause, groupByClause, orderByClause, limitClause])
               in Inr (js_join ''\<newline>'' parts @ ''\<newline>'')))\<close>

section \<open>TransformInterpreter: statements\<close>

text \<open>
  A syntax node, as far as the statement handlers look into it: an infix expression
  with its operator token and two operands, or any other node. The front end's
  \<^verbatim>\<open>destructureComplexVariable\<close> and \<^verbatim>\<open>extractVariableFromExpression\<close> are outside the
  repository's interpreter; they are the two fields of a \<open>FrontEnd\<close>, and every
  statement below holds for each choice of them.
\<close>

datatype SyntaxNode =
    InfixExpressionNode \<open>string option\<close> \<open>SyntaxNode option\<close> \<open>SyntaxNode option\<close>
  | OtherNode nat

record FrontEnd =
  destructureComplexVariable :: \<open>SyntaxNode \<Rightarrow> string list option\<close>
  extractVariableFromExpression :: \<open>SyntaxNode \<Rightarrow> string option\<close>

record TransformStatementNode =
  stmt_keyword :: \<open>string option\<close>
  stmt_expression :: \<open>SyntaxNode option\<close>
  stmt_token :: token_position

datatype CompileErrorCode = UNEXPECTED_TOKEN | INVALID_NAME | UNSUPPORTED | INVALID_COLUMN

record CompileError =
  code :: CompileErrorCode
  diagnostic :: string
  nodeOrToken :: TransformStatementNode

definition unwrap_or :: \<open>'a option \<Rightarrow> 'a \<Rightarrow> 'a\<close> where
  \<open>unwrap_or r d = (case r of None \<Rightarrow> d | Some v \<Rightarrow> v)\<close>

text \<open>
  \<^verbatim>\<open>parseInt(s, 10)\<close>: leading white space is skipped, one sign is read, and the
  longest run of decimal digits is the value; no digit at all is \<^verbatim>\<open>NaN\<close>, here
  \<open>None\<close>. The value is an exact integer, which is the source's value up to
  \<^verbatim>\<open>2^53\<close> (beyond it the source rounds to a double), and the white space skipped is
  the ASCII one (the source also skips the Unicode spaces).
\<close>

definition isWhiteSpace :: \<open>char \<Rightarrow> bool\<close> where
  \<open>isWhiteSpace c = (c \<in> set [CHR 0x20, CHR 0x09, CHR 0x0A, CHR 0x0B, CHR 0x0C, CHR 0x0D])\<close>

definition digitValue :: \<open>char \<Rightarrow> nat option\<close> where
  \<open>digitValue c = map_of (zip ''0123456789'' [0, 1, 2, 3, 4, 5, 6, 7, 8, 9]) c\<close>

definition isDigit :: \<open>char \<Rightarrow> bool\<close> where
  \<open>isDigit c = (digitValue c \<noteq> None)\<close>

definition digitsValue :: \<open>string \<Rightarrow> nat\<close> where
  \<open>digitsValue z = foldl (\<lambda>acc c. 10 * acc + the (digitValue c)) 0 z\<close>

definition parseInt :: \<open>string \<Rightarrow> int option\<close> where
  \<open>parseInt s =
     (let t = dropWhile isWhiteSpace s;
          negative = (case t of c # _ \<Rightarrow> c = CHR ''-'' | [] \<Rightarrow> False);
          u = (case t of c # r \<Rightarrow> (if c = CHR ''-'' \<or> c = CHR ''+'' then r else t) | [] \<Rightarrow> t);
          z = takeWhile isDigit u
      in if z = [] then None
         else Some (if negative then - int (digitsValue z) else int (digitsValue z)))\<close>

text \<open>\<^verbatim>\<open>expressionToString\<close>: the fragments joined with a dot.\<close>

definition expressionToString :: \<open>FrontEnd \<Rightarrow> SyntaxNode \<Rightarrow> string\<close> where
  \<open>expressionToString fe expr =
     (let fragments = unwrap_or (destructureComplexVariable fe expr) []
      in js_join ''.'' fragments)\<close>

text \<open>
  \<^verbatim>\<open>parseOrderBy\<close>: \<^verbatim>\<open>fragments[fragments.length - 1]\<close> is \<^verbatim>\<open>undefined\<close> on the empty
  array, and \<^verbatim>\<open>fragments.pop()\<close> removes the last element.
\<close>

definition parseOrderBy :: \<open>FrontEnd \<Rightarrow> SyntaxNode \<Rightarrow> TransformOrderBy list\<close> where
  \<open>parseOrderBy fe expr =
     (let fragments = unwrap_or (destructureComplexVariable fe expr) [];
          lastFragment = (if fragments = [] then None else Some (last fragments));
          lowered = map_option toLowerCase lastFragment;
          direction = (if lowered = Some ''desc'' then DESC else ASC);
          fragments' =
            (if lowered = Some ''desc'' then butlast fragments
             else if lowered = Some ''asc'' then butlast fragments
             else fragments)
      in if length fragments' = 2 then
           [\<lparr>ob_table = fragments' ! 0, ob_column = fragments' ! 1, ob_direction = direction\<rparr>]
         else [])\<close>

definition compileError ::
  \<open>CompileErrorCode \<Rightarrow> string \<Rightarrow> TransformStatementNode \<Rightarrow> CompileError\<close> where
  \<open>compileError c m n = \<lparr>code = c, diagnostic = m, nodeOrToken = n\<rparr>\<close>

text \<open>
  Each handler returns its diagnostics and the Transform it leaves behind. A field
  written \<^verbatim>\<open>this.transform.joins!\<close> is read without a test: were it absent, the
  \<^verbatim>\<open>push\<close> would raise.
\<close>

definition interpretJoin ::
  \<open>FrontEnd \<Rightarrow> TransformStatementNode \<Rightarrow> Transform \<Rightarrow> error + CompileError list \<times> Transform\<close> where
  \<open>interpretJoin fe statement transform =
     (let invalid = Inr ([compileError INVALID_NAME
                            ''Invalid join syntax. Expected: Table.column = Table.column''
                            statement], transform)
      in case stmt_expression statement of
           None \<Rightarrow>
             Inr ([compileError INVALID_NAME ''Join expression is required'' statement], transform)
         | Some (InfixExpressionNode opv (Some leftExpression) (Some rightExpression)) \<Rightarrow>
             let operator' = (if truthy opv then the opv else ''='');
                 leftFragments = unwrap_or (destructureComplexVariable fe leftExpression) [];
                 rightFragments = unwrap_or (destructureComplexVariable fe rightExpression) []
             in if length leftFragments = 2 \<and> length rightFragments = 2 then
                  let j = \<lparr>leftTable = leftFragments ! 0, leftColumn = leftFragments ! 1,
                            operator = operator',
                            rightTable = rightFragments ! 0, rightColumn = rightFragments ! 1,
                            join_token = stmt_token statement\<rparr>
                  in (case joins transform of
                        None \<Rightarrow> Inl TypeError
                      | Some js \<Rightarrow> Inr ([], transform\<lparr>joins := Some (js @ [j])\<rparr>))
                else invalid
         | Some _ \<Rightarrow> invalid)\<close>

definition interpretWhere ::
  \<open>FrontEnd \<Rightarrow> TransformStatementNode \<Rightarrow> Transform \<Rightarrow> error + CompileError list \<times> Transform\<close> where
  \<open>interpretWhere fe statement transform =
     (case stmt_expression statement of
        None \<Rightarrow>
          Inr ([compileError INVALID_NAME ''Where expression is required'' statement], transform)
      | Some expr \<Rightarrow>
          let f = \<lparr>flt_expression = expressionToString fe expr, flt_token = stmt_token statement\<rparr>
          in (case filters transform of
                None \<Rightarrow> Inl TypeError
              | Some fs \<Rightarrow> Inr ([], transform\<lparr>filters := Some (fs @ [f])\<rparr>)))\<close>

definition interpretGroupBy ::
  \<open>FrontEnd \<Rightarrow> TransformStatementNode \<Rightarrow> Transform \<Rightarrow> error + CompileError list \<times> Transform\<close> where
  \<open>interpretGroupBy fe statement transform =
     (case stmt_expression statement of
        None \<Rightarrow>
          Inr ([compileError INVALID_NAME ''Group by expression is required'' statement], transform)
      | Some expr \<Rightarrow>
          let cols = unwrap_or (destructureComplexVariable fe expr) []
          in Inr ([], transform\<lparr>groupBy := Some (orEmpty (groupBy transform) @ cols)\<rparr>))\<close>

definition interpretOrderBy ::
  \<open>FrontEnd \<Rightarrow> TransformStatementNode \<Rightarrow> Transform \<Rightarrow> error + CompileError list \<times> Transform\<close> where
  \<open>interpretOrderBy fe statement transform =
     (case stmt_expression statement of
        None \<Rightarrow>
          Inr ([compileError INVALID_NAME ''Order by expression is required'' statement], transform)
      | Some expr \<Rightarrow>
          let terms = parseOrderBy fe expr
          in Inr ([], transform\<lparr>orderBy := Some (orEmpty (orderBy transform) @ terms)\<rparr>))\<close>

definition interpretLimit ::
  \<open>FrontEnd \<Rightarrow> TransformStatementNode \<Rightarrow> Transform \<Rightarrow> error + CompileError list \<times> Transform\<close> where
  \<open>interpretLimit fe statement transform =
     (case stmt_expression statement of
        None \<Rightarrow>
          Inr ([compileError INVALID_NAME ''Limit expression is required'' statement], transform)
      | Some expr \<Rightarrow>
          let limitStr = unwrap_or (extractVariableFromExpression fe expr) ''0''
          in (case parseInt limitStr of
                None \<Rightarrow>
                  Inr ([compileError INVALID_NAME ''Limit must be a number'' statement], transform)
              | Some n \<Rightarrow> Inr ([], transform\<lparr>limit := Some n\<rparr>)))\<close>

definition interpretUsing ::
  \<open>FrontEnd \<Rightarrow> TransformStatementNode \<Rightarrow> Transform \<Rightarrow> error + CompileError list \<times> Transform\<close> where
  \<open>interpretUsing fe statement transform =
     (case stmt_expression statement of
        None \<Rightarrow>
          Inr ([compileError INVALID_NAME ''Using expression is required'' statement], transform)
      | Some expr \<Rightarrow>
          let tn = unwrap_or (extractVariableFromExpression fe expr) []
          in Inr ([], transform\<lparr>nestedTransform :=
                                  Some \<lparr>transformName = tn, nested_sources = []\<rparr>\<rparr>))\<close>

definition interpretAdd ::
  \<open>FrontEnd \<Rightarrow> TransformStatementNode \<Rightarrow> Transform \<Rightarrow> error + CompileError list \<times> Transform\<close> where
  \<open>interpretAdd fe statement transform =
     (let invalid = Inr ([compileError INVALID_NAME
                            ''Add syntax must be: column_name = expression'' statement], transform)
      in case stmt_expression statement of
           None \<Rightarrow>
             Inr ([compileError INVALID_NAME ''Add expression is required'' statement], transform)
         | Some (InfixExpressionNode opv (Some leftExpression) (Some rightExpression)) \<Rightarrow>
             if opv = Some ''='' then
               let d = \<lparr>dc_name = unwrap_or (extractVariableFromExpression fe leftExpression) [],
                        dc_expression = expressionToString fe rightExpression,
                        dc_token = stmt_token statement\<rparr>
               in Inr ([], transform\<lparr>derivedColumns :=
                                       Some (orEmpty (derivedColumns transform) @ [d])\<rparr>)
             else invalid
         | Some _ \<Rightarrow> invalid)\<close>

text \<open>
  \<^verbatim>\<open>interpretStatement\<close>: \<^verbatim>\<open>statement.keyword?.value.toLowerCase()\<close> is \<^verbatim>\<open>undefined\<close>
  when the keyword token is missing, and the template literal prints it so.
\<close>

definition interpretStatement ::
  \<open>FrontEnd \<Rightarrow> TransformStatementNode \<Rightarrow> Transform \<Rightarrow> error + CompileError list \<times> Transform\<close> where
  \<open>interpretStatement fe statement transform =
     (let keyword = map_option toLowerCase (stmt_keyword statement) in
      if keyword = Some ''join'' then interpretJoin fe statement transform
      else if keyword = Some ''where'' then interpretWhere fe statement transform
      else if keyword = Some ''group_by'' then interpretGroupBy fe statement transform
      else if keyword = Some ''order_by'' then interpretOrderBy fe statement transform
      else if keyword = Some ''limit'' then interpretLimit fe statement transform
      else if keyword = Some ''using'' then interpretUsing fe statement transform
      else if keyword = Some ''add'' then interpretAdd fe statement transform
      else Inr ([compileError UNEXPECTED_TOKEN
                   (''Unknown transform keyword: ''
                      @ (case keyword of None \<Rightarrow> ''undefined'' | Some k \<Rightarrow> k))
                   statement], transform))\<close>

section \<open>The specification's wording\<close>

text \<open>
  The order-by parser as the specification words it: a final fragment that is
  \<^verbatim>\<open>asc\<close> or \<^verbatim>\<open>desc\<close> in any letter case is popped and gives the direction
  (\<^verbatim>\<open>ASC\<close> otherwise); exactly the fragments \<^verbatim>\<open>[table, column]\<close> that remain give one
  term, any other number of fragments gives none.
\<close>

definition spec_isDirection :: \<open>string \<Rightarrow> bool\<close> where
  \<open>spec_isDirection f = (toLowerCase f = ''asc'' \<or> toLowerCase f = ''desc'')\<close>

definition spec_orderTerms :: \<open>string list \<Rightarrow> TransformOrderBy list\<close> where
  \<open>spec_orderTerms fragments =
     (let popped = (fragments \<noteq> [] \<and> spec_isDirection (last fragments));
          direction = (if popped \<and> toLowerCase (last fragments) = ''desc'' then DESC else ASC);
          remaining = (if popped then butlast fragments else fragments)
      in case remaining of
           [t, c] \<Rightarrow> [\<lparr>ob_table = t, ob_column = c, ob_direction = direction\<rparr>]
         | _ \<Rightarrow> [])\<close>

text \<open>
  The join clause of one later source as the specification words it: the Joins
  whose left or right table is the source are collected; if there is one, their
  conditions \<^verbatim>\<open>"lt"."lc" OP "rt"."rc"\<close> are combined with \<^verbatim>\<open>AND\<close> into a single
  \<^verbatim>\<open>INNER JOIN ... ON ...\<close>; if there is none, the clause is a \<^verbatim>\<open>CROSS JOIN\<close>.
\<close>

definition spec_joinCondition :: \<open>TransformJoin \<Rightarrow> string\<close> where
  \<open>spec_joinCondition j =
     ''"'' @ leftTable j @ ''"."'' @ leftColumn j @ ''" '' @ operator j
       @ '' "'' @ rightTable j @ ''"."'' @ rightColumn j @ ''"''\<close>

definition spec_matchingJoins :: \<open>TransformJoin list \<Rightarrow> TransformSource \<Rightarrow> TransformJoin list\<close> where
  \<open>spec_matchingJoins js s = filter (\<lambda>j. leftTable j = src_name s \<or> rightTable j = src_name s) js\<close>

definition spec_joinClause :: \<open>TransformJoin list \<Rightarrow> TransformSource \<Rightarrow> string\<close> where
  \<open>spec_joinClause js s =
     (if \<exists>j \<in> set js. leftTable j = src_name s \<or> rightTable j = src_name s then
        ''  INNER JOIN '' @ tableName s @ aliasSuffix (src_alias s) @ '' ON ''
          @ js_join '' AND '' (map spec_joinCondition (spec_matchingJoins js s))
      else ''  CROSS JOIN '' @ tableName s @ aliasSuffix (src_alias s))\<close>

section \<open>Concrete inputs\<close>

text \<open>
  A front end that decomposes a few particular nodes and fails on every other one,
  and the Transforms and columns at which the statements below are evaluated.
\<close>

definition demoFrontEnd :: FrontEnd where
  \<open>demoFrontEnd =
     \<lparr>destructureComplexVariable =
        (\<lambda>n. if n = OtherNode 2 then Some [''Orders'', ''total'', ''DESC'']
             else if n = OtherNode 3 then Some [''Orders'', ''total'']
             else None),
      extractVariableFromExpression =
        (\<lambda>n. if n = OtherNode 1 then Some ''abc''
             else if n = OtherNode 4 then Some ''0''
             else if n = OtherNode 5 then Some ''10''
             else None)\<rparr>\<close>

definition plainSource :: \<open>string \<Rightarrow> TransformSource\<close> where
  \<open>plainSource n = \<lparr>src_name = n, src_schemaName = None, src_alias = None\<rparr>\<close>

definition demoTransform :: Transform where
  \<open>demoTransform =
     \<lparr>name = ''TopOrders'', schemaName = None,
      sources = Some [plainSource ''Orders''],
      columns = Some [], joins = Some [], filters = Some [],
      groupBy = None, orderBy = None, limit = None,
      derivedColumns = None, nestedTransform = None\<rparr>\<close>

definition demoJoinTransform :: Transform where
  \<open>demoJoinTransform =
     \<lparr>name = ''MultiJoin'', schemaName = None,
      sources = Some [plainSource ''Users'', plainSource ''Orders'', plainSource ''Payments'',
                      plainSource ''Logs''],
      columns = Some [],
      joins = Some [\<lparr>leftTable = ''Users'', leftColumn = ''id'', operator = ''='',
                      rightTable = ''Orders'', rightColumn = ''user_id'', join_token = 0\<rparr>,
                    \<lparr>leftTable = ''Orders'', leftColumn = ''order_id'', operator = ''='',
                      rightTable = ''Payments'', rightColumn = ''order_id'', join_token = 1\<rparr>],
      filters = Some [],
      groupBy = None, orderBy = None, limit = None,
      derivedColumns = None, nestedTransform = None\<rparr>\<close>

definition rankedTransform :: Transform where
  \<open>rankedTransform =
     \<lparr>name = ''Ranked'', schemaName = None,
      sources = Some [plainSource ''Orders''],
      columns = Some [\<lparr>sourceTable = ''Orders'', sourceColumn = ''total_amount'',
                        expression = None, col_alias = Some ''rank'', aggregation = None,
                        window = Some \<lparr>win_function = ''row_number'',
                                        win_partitionBy = Some [''Orders.user_id''],
                                        win_orderBy = Some [\<lparr>ob_table = ''Orders'',
                                                             ob_column = ''total_amount'',
                                                             ob_direction = DESC\<rparr>],
                                        win_frame = None\<rparr>\<rparr>],
      joins = Some [], filters = Some [],
      groupBy = None, orderBy = None, limit = None,
      derivedColumns = None, nestedTransform = None\<rparr>\<close>

definition whereTransform :: Transform where
  \<open>whereTransform =
     \<lparr>name = ''WHERE_LIMIT'', schemaName = None,
      sources = Some [plainSource ''Orders''],
      columns = Some [], joins = Some [], filters = Some [],
      groupBy = None, orderBy = None, limit = None,
      derivedColumns = None, nestedTransform = None\<rparr>\<close>

definition demoAggColumn :: TransformColumn where
  \<open>demoAggColumn =
     \<lparr>sourceTable = ''Orders'', sourceColumn = ''total'', expression = None,
      col_alias = Some ''running'',
      aggregation = Some \<lparr>agg_function = ''sum'', agg_partitionBy = None,
                           agg_orderBy = Some [\<lparr>ob_table = ''Orders'', ob_column = ''date'',
                                                ob_direction = DESC\<rparr>]\<rparr>,
      window = None\<rparr>\<close>

definition demoWindowColumn :: TransformColumn where
  \<open>demoWindowColumn =
     \<lparr>sourceTable = ''Orders'', sourceColumn = ''total'', expression = None,
      col_alias = Some ''rn'',
      aggregation = None,
      window = Some \<lparr>win_function = ''row_number'', win_partitionBy = None,
                      win_orderBy = None, win_frame = None\<rparr>\<rparr>\<close>

section \<open>Evaluation rules\<close>

lemmas export_defs =
  exportTransform_def buildSelectClause_def selectColumn_def buildWindowColumn_def
  buildAggregationColumn_def buildFromClause_def buildJoinClauses_def buildWhereClause_def
  buildGroupByClause_def buildOrderByClause_def buildLimitClause_def
  nonEmpty_def orEmpty_def truthy_def columnRef_def aliasSuffix_def tableName_def orderTerm_def
  toUpperCase_def toUpperChar_def rankFamily_def valueFamily_def plainSource_def Let_def

lemmas dbt_defs =
  generateDbtModel_def dbt_buildSelectClause_def dbt_selectColumn_def dbt_buildWindowColumn_def
  dbt_buildAggregationColumn_def dbt_buildFromClause_def dbt_buildJoinClauses_def
  dbt_buildWhereClause_def dbt_buildGroupByClause_def dbt_buildOrderByClause_def
  dbt_buildLimitClause_def dbt_ref_def dbt_columnRef_def dbt_aliasSuffix_def dbt_orderTerm_def
  dbt_onClause_def

lemmas parse_defs =
  parseInt_def isWhiteSpace_def isDigit_def digitValue_def digitsValue_def unwrap_or_def

section \<open>Strings\<close>

lemma js_join_nonempty: \<open>xs \<noteq> [] \<Longrightarrow> hd xs \<noteq> [] \<Longrightarrow> js_join sep xs \<noteq> []\<close>
  by (induction sep xs rule: js_join.induct) auto

lemma str_includes_iff: \<open>str_includes h n \<longleftrightarrow> (\<exists>p s. h = p @ n @ s)\<close>
proof (induction h)
  case Nil
  show ?case by auto
next
  case (Cons c cs)
  show ?case
  proof
    assume \<open>str_includes (c # cs) n\<close>
    then consider \<open>take (length n) (c # cs) = n\<close> | \<open>str_includes cs n\<close> by auto
    then show \<open>\<exists>p s. c # cs = p @ n @ s\<close>
    proof cases
      case 1
      then have \<open>c # cs = [] @ n @ drop (length n) (c # cs)\<close>
        by (metis append_Nil append_take_drop_id)
      then show ?thesis by blast
    next
      case 2
      with Cons.IH obtain p s where \<open>cs = p @ n @ s\<close> by blast
      then have \<open>c # cs = (c # p) @ n @ s\<close> by simp
      then show ?thesis by blast
    qed
  next
    assume \<open>\<exists>p s. c # cs = p @ n @ s\<close>
    then obtain p s where e: \<open>c # cs = p @ n @ s\<close> by blast
    show \<open>str_includes (c # cs) n\<close>
    proof (cases p)
      case Nil
      with e have \<open>take (length n) (c # cs) = n\<close> by (metis append_Nil append_eq_conv_conj)
      then show ?thesis by simp
    next
      case (Cons a p')
      with e have \<open>cs = p' @ n @ s\<close> by simp
      with Cons.IH have \<open>str_includes cs n\<close> by blast
      then show ?thesis by simp
    qed
  qed
qed

lemma str_includes_separator:
  assumes \<open>str_includes (a @ c # b) n\<close> and \<open>c \<notin> set n\<close>
  shows \<open>str_includes a n \<or> str_includes b n\<close>
proof -
  from assms(1) obtain p s where e: \<open>a @ c # b = p @ n @ s\<close>
    unfolding str_includes_iff by blast
  then consider us where \<open>a = p @ us\<close> \<open>us @ c # b = n @ s\<close>
    | us where \<open>a @ us = p\<close> \<open>c # b = us @ n @ s\<close>
    by (auto simp: append_eq_append_conv2)
  then show ?thesis
  proof cases
    case 1
    from 1(2) consider vs where \<open>us = n @ vs\<close>
      | vs where \<open>us @ vs = n\<close> \<open>c # b = vs @ s\<close>
      by (auto simp: append_eq_append_conv2)
    then show ?thesis
    proof cases
      case 1
      with \<open>a = p @ us\<close> have \<open>a = p @ n @ vs\<close> by simp
      then show ?thesis unfolding str_includes_iff by blast
    next
      case 2
      show ?thesis
      proof (cases vs)
        case Nil
        with 2 \<open>a = p @ us\<close> have \<open>a = p @ n @ []\<close> by simp
        then show ?thesis unfolding str_includes_iff by blast
      next
        case (Cons v vs')
        with 2 have \<open>c \<in> set n\<close> by auto
        with assms(2) show ?thesis by simp
      qed
    qed
  next
    case 2
    show ?thesis
    proof (cases us)
      case Nil
      with 2 have n: \<open>c # b = n @ s\<close> by simp
      show ?thesis
      proof (cases n)
        case Nil
        then have \<open>a = a @ n @ []\<close> by simp
        then show ?thesis unfolding str_includes_iff by blast
      next
        case (Cons x n')
        with n assms(2) show ?thesis by simp
      qed
    next
      case (Cons u us')
      with 2 have \<open>b = us' @ n @ s\<close> by simp
      then show ?thesis unfolding str_includes_iff by blast
    qed
  qed
qed

lemma str_includes_js_join:
  assumes \<open>str_includes (js_join [c] parts) n\<close> and \<open>c \<notin> set n\<close> and \<open>n \<noteq> []\<close>
  shows \<open>\<exists>p \<in> set parts. str_includes p n\<close>
  using assms
proof (induction \<open>[c]\<close> parts rule: js_join.induct)
  case 1
  then show ?case by simp
next
  case (2 x)
  then show ?case by simp
next
  case (3 x y ys)
  from 3(2) have h: \<open>str_includes (x @ c # js_join [c] (y # ys)) n\<close> by simp
  have \<open>str_includes x n \<or> str_includes (js_join [c] (y # ys)) n\<close>
    by (rule str_includes_separator [OF h 3(3)])
  with 3 show ?case by auto
qed

lemma js_join_includes_element:
  \<open>x \<in> set xs \<Longrightarrow> str_includes (js_join sep xs) x\<close>
proof (induction sep xs rule: js_join.induct)
  case (1 sep)
  then show ?case by simp
next
  case (2 sep y)
  then have \<open>js_join sep [y] = [] @ x @ []\<close> by simp
  then show ?case unfolding str_includes_iff by blast
next
  case (3 sep y z zs)
  show ?case
  proof (cases \<open>x = y\<close>)
    case True
    then have \<open>js_join sep (y # z # zs) = [] @ x @ (sep @ js_join sep (z # zs))\<close> by simp
    then show ?thesis unfolding str_includes_iff by blast
  next
    case False
    with 3 have \<open>str_includes (js_join sep (z # zs)) x\<close> by simp
    then obtain p s where \<open>js_join sep (z # zs) = p @ x @ s\<close>
      unfolding str_includes_iff by blast
    then have \<open>js_join sep (y # z # zs) = (y @ sep @ p) @ x @ s\<close> by simp
    then show ?thesis unfolding str_includes_iff by blast
  qed
qed

lemma str_includes_terminator:
  assumes \<open>str_includes (body @ '';\<newline>'') k\<close>
    and \<open>CHR '';'' \<notin> set k\<close> and \<open>CHR 0x0A \<notin> set k\<close> and \<open>k \<noteq> []\<close>
  shows \<open>str_includes body k\<close>
proof -
  from assms(1) have h: \<open>str_includes (body @ CHR '';'' # ''\<newline>'') k\<close> by simp
  have \<open>str_includes body k \<or> str_includes ''\<newline>'' k\<close>
    by (rule str_includes_separator [OF h assms(2)])
  moreover have \<open>\<not> str_includes ''\<newline>'' k\<close>
  proof
    assume \<open>str_includes ''\<newline>'' k\<close>
    then obtain p s where e: \<open>''\<newline>'' = p @ k @ s\<close> unfolding str_includes_iff by blast
    then have \<open>set k \<subseteq> set ''\<newline>''\<close> by (metis set_append sup_ge1 sup_ge2 subset_trans)
    with assms(3,4) show False by (cases k) auto
  qed
  ultimately show ?thesis by blast
qed

lemma filterBoolean_append: \<open>filterBoolean (xs @ ys) = filterBoolean xs @ filterBoolean ys\<close>
  by (induction xs) (auto split: option.splits)

lemma filterBoolean_map_Some: \<open>[] \<notin> set xs \<Longrightarrow> filterBoolean (map Some xs) = xs\<close>
  by (induction xs) auto

section \<open>The select list never throws\<close>

lemma buildAggregationColumn_Inr:
  \<open>aggregation col \<noteq> None \<Longrightarrow> \<exists>s. buildAggregationColumn col d = Inr (''  '' @ s)\<close>
  by (auto simp: buildAggregationColumn_def Let_def)

lemma buildWindowColumn_Inr:
  \<open>window col \<noteq> None \<Longrightarrow> \<exists>s. buildWindowColumn col d = Inr (''  '' @ s)\<close>
  by (auto simp: buildWindowColumn_def Let_def)

lemma selectColumn_Inr: \<open>\<exists>s. selectColumn d col = Inr (''  '' @ s)\<close>
  using buildAggregationColumn_Inr [of col d] buildWindowColumn_Inr [of col d]
  by (auto simp: selectColumn_def)

lemma dbt_buildAggregationColumn_Inr:
  \<open>aggregation col \<noteq> None \<Longrightarrow> \<exists>s. dbt_buildAggregationColumn col = Inr (''  '' @ s)\<close>
  by (auto simp: dbt_buildAggregationColumn_def Let_def)

lemma dbt_buildWindowColumn_Inr:
  \<open>window col \<noteq> None \<Longrightarrow> \<exists>s. dbt_buildWindowColumn col = Inr (''  '' @ s)\<close>
  by (auto simp: dbt_buildWindowColumn_def Let_def)

lemma dbt_selectColumn_Inr: \<open>\<exists>s. dbt_selectColumn col = Inr (''  '' @ s)\<close>
  using dbt_buildAggregationColumn_Inr [of col] dbt_buildWindowColumn_Inr [of col]
  by (auto simp: dbt_selectColumn_def)

lemma mapThrowing_total:
  assumes \<open>\<And>x. \<exists>y. f x = Inr y\<close>
  shows \<open>mapThrowing f xs = Inr (map (\<lambda>x. projr (f x)) xs)\<close>
proof (induction xs)
  case Nil
  show ?case by simp
next
  case (Cons x xs)
  from assms obtain y where \<open>f x = Inr y\<close> by blast
  with Cons show ?case by simp
qed

lemma nonEmpty_Cons: \<open>nonEmpty xs \<Longrightarrow> \<exists>y ys. orEmpty xs = y # ys\<close>
  by (cases xs; cases \<open>orEmpty xs\<close>) (auto simp: nonEmpty_def orEmpty_def)

lemma buildSelectClause_Inr: \<open>\<exists>sel. buildSelectClause t d = Inr sel \<and> sel \<noteq> []\<close>
proof (cases \<open>nonEmpty (columns t)\<close>)
  case False
  then show ?thesis by (simp add: buildSelectClause_def)
next
  case True
  then obtain c cs where cs: \<open>orEmpty (columns t) = c # cs\<close>
    using nonEmpty_Cons by blast
  have m: \<open>mapThrowing (selectColumn d) (c # cs) = Inr (map (\<lambda>x. projr (selectColumn d x)) (c # cs))\<close>
    by (rule mapThrowing_total) (use selectColumn_Inr in blast)
  obtain s where \<open>selectColumn d c = Inr (''  '' @ s)\<close> using selectColumn_Inr by blast
  then have \<open>js_join '',\<newline>'' (map (\<lambda>x. projr (selectColumn d x)) (c # cs)) \<noteq> []\<close>
    by (intro js_join_nonempty) auto
  with True cs m show ?thesis by (simp add: buildSelectClause_def)
qed

lemma dbt_buildSelectClause_Inr: \<open>\<exists>sel. dbt_buildSelectClause t = Inr sel \<and> sel \<noteq> []\<close>
proof (cases \<open>nonEmpty (columns t)\<close>)
  case False
  then show ?thesis by (simp add: dbt_buildSelectClause_def)
next
  case True
  then obtain c cs where cs: \<open>orEmpty (columns t) = c # cs\<close>
    using nonEmpty_Cons by blast
  have m: \<open>mapThrowing dbt_selectColumn (c # cs) = Inr (map (\<lambda>x. projr (dbt_selectColumn x)) (c # cs))\<close>
    by (rule mapThrowing_total) (use dbt_selectColumn_Inr in blast)
  obtain s where \<open>dbt_selectColumn c = Inr (''  '' @ s)\<close> using dbt_selectColumn_Inr by blast
  then have \<open>js_join '',\<newline>'' (map (\<lambda>x. projr (dbt_selectColumn x)) (c # cs)) \<noteq> []\<close>
    by (intro js_join_nonempty) auto
  with True cs m show ?thesis by (simp add: dbt_buildSelectClause_def)
qed

section \<open>FROM and JOIN\<close>

lemma buildFromClause_cases:
  \<open>buildFromClause t d =
     (case sources t of
        None \<Rightarrow> Inl (Error (''Transform '' @ name t @ '' has no sources''))
      | Some [] \<Rightarrow> Inl (Error (''Transform '' @ name t @ '' has no sources''))
      | Some (s # ss) \<Rightarrow> Inr (tableName s @ aliasSuffix (src_alias s)))\<close>
  by (auto simp: buildFromClause_def nonEmpty_def orEmpty_def split: option.splits list.splits)

lemma dbt_buildFromClause_cases:
  \<open>dbt_buildFromClause sc t =
     (case sources t of
        None \<Rightarrow> Inl (Error (''Transform '' @ name t @ '' has no sources''))
      | Some [] \<Rightarrow> Inl (Error (''Transform '' @ name t @ '' has no sources''))
      | Some (s # ss) \<Rightarrow> Inr (dbt_ref sc s))\<close>
  by (auto simp: dbt_buildFromClause_def nonEmpty_def orEmpty_def split: option.splits list.splits)

lemma sources_cases:
  obtains \<open>sources t = None \<or> sources t = Some []\<close> | s ss where \<open>sources t = Some (s # ss)\<close>
  by (cases \<open>sources t\<close>; cases \<open>the (sources t)\<close>) auto

lemma forEachSource_map:
  \<open>forEachSource js rest pushed = pushed @ map (spec_joinClause js) rest\<close>
proof (induction rest arbitrary: pushed)
  case Nil
  show ?case by simp
next
  case (Cons s rest)
  have m: \<open>filter (joinMatches s) js = spec_matchingJoins js s\<close>
    unfolding spec_matchingJoins_def by (rule filter_cong) (auto simp: joinMatches_def)
  have e: \<open>(\<exists>j \<in> set js. leftTable j = src_name s \<or> rightTable j = src_name s)
            \<longleftrightarrow> spec_matchingJoins js s \<noteq> []\<close>
    by (auto simp: spec_matchingJoins_def filter_empty_conv)
  have c: \<open>map onClause xs = map spec_joinCondition xs\<close> for xs
    by (simp add: onClause_def spec_joinCondition_def Let_def)
  show ?case
    by (simp add: Cons.IH Let_def m e c spec_joinClause_def del: spec_matchingJoins_def)
qed

lemma buildJoinClauses_map:
  assumes \<open>sources t = Some (s # rest)\<close>
  shows \<open>buildJoinClauses t d = map (spec_joinClause (orEmpty (joins t))) rest\<close>
  using assms by (cases rest) (simp_all add: buildJoinClauses_def orEmpty_def forEachSource_map)

lemma spec_joinClause_nonempty: \<open>spec_joinClause js s \<noteq> []\<close>
  by (simp add: spec_joinClause_def)

lemma buildJoinClauses_nonempty_lines: \<open>[] \<notin> set (buildJoinClauses t d)\<close>
proof (cases \<open>sources t\<close>)
  case None
  then show ?thesis by (simp add: buildJoinClauses_def orEmpty_def)
next
  case (Some srcs)
  show ?thesis
  proof (cases srcs)
    case Nil
    with Some show ?thesis by (simp add: buildJoinClauses_def orEmpty_def)
  next
    case (Cons s rest)
    with Some have \<open>buildJoinClauses t d = map (spec_joinClause (orEmpty (joins t))) rest\<close>
      by (simp add: buildJoinClauses_map)
    then show ?thesis
      by (auto dest!: sym [of \<open>[]\<close>] simp: spec_joinClause_nonempty)
  qed
qed

lemma forEachSource_lines:
  \<open>forEachSource js rest pushed =
     pushed @ map (\<lambda>s. if filter (joinMatches s) js \<noteq> [] then
                          ''  INNER JOIN '' @ tableName s @ aliasSuffix (src_alias s) @ '' ON ''
                            @ js_join '' AND '' (map onClause (filter (joinMatches s) js))
                        else ''  CROSS JOIN '' @ tableName s @ aliasSuffix (src_alias s)) rest\<close>
  by (induction rest arbitrary: pushed) (simp_all add: Let_def)

lemma dbt_forEachSource_lines:
  \<open>dbt_forEachSource sc js rest pushed =
     pushed @ map (\<lambda>s. if filter (joinMatches s) js \<noteq> [] then
                          ''  INNER JOIN '' @ dbt_ref sc s @ '' ON ''
                            @ js_join '' AND '' (map dbt_onClause (filter (joinMatches s) js))
                        else ''  CROSS JOIN '' @ dbt_ref sc s) rest\<close>
  by (induction rest arbitrary: pushed) (simp_all add: Let_def)

lemma buildJoinClauses_lines:
  assumes \<open>sources t = Some (s # rest)\<close>
  shows \<open>buildJoinClauses t d =
           map (\<lambda>s. if filter (joinMatches s) (orEmpty (joins t)) \<noteq> [] then
                       ''  INNER JOIN '' @ tableName s @ aliasSuffix (src_alias s) @ '' ON ''
                         @ js_join '' AND '' (map onClause (filter (joinMatches s) (orEmpty (joins t))))
                     else ''  CROSS JOIN '' @ tableName s @ aliasSuffix (src_alias s)) rest\<close>
  using assms by (cases rest) (simp_all add: buildJoinClauses_def orEmpty_def forEachSource_lines)

lemma dbt_buildJoinClauses_lines:
  assumes \<open>sources t = Some (s # rest)\<close>
  shows \<open>dbt_buildJoinClauses sc t =
           map (\<lambda>s. if filter (joinMatches s) (orEmpty (joins t)) \<noteq> [] then
                       ''  INNER JOIN '' @ dbt_ref sc s @ '' ON ''
                         @ js_join '' AND '' (map dbt_onClause (filter (joinMatches s) (orEmpty (joins t))))
                     else ''  CROSS JOIN '' @ dbt_ref sc s) rest\<close>
  using assms by (cases rest) (simp_all add: dbt_buildJoinClauses_def orEmpty_def dbt_forEachSource_lines)

lemma buildJoinClauses_no_sources:
  \<open>sources t = None \<or> sources t = Some [] \<Longrightarrow> buildJoinClauses t d = []\<close>
  by (auto simp: buildJoinClauses_def orEmpty_def)

lemma dbt_buildJoinClauses_no_sources:
  \<open>sources t = None \<or> sources t = Some [] \<Longrightarrow> dbt_buildJoinClauses sc t = []\<close>
  by (auto simp: dbt_buildJoinClauses_def orEmpty_def)

lemma dbt_buildJoinClauses_nonempty_lines: \<open>[] \<notin> set (dbt_buildJoinClauses sc t)\<close>
proof (rule sources_cases [of t])
  assume \<open>sources t = None \<or> sources t = Some []\<close>
  then show ?thesis by (simp add: dbt_buildJoinClauses_no_sources)
next
  fix s ss
  assume \<open>sources t = Some (s # ss)\<close>
  then show ?thesis by (auto simp: dbt_buildJoinClauses_lines)
qed

section \<open>The shape of the emitted text\<close>

lemma exportTransform_no_sources:
  assumes \<open>sources t = None \<or> sources t = Some []\<close>
  shows \<open>exportTransform t d = Inl (Error (''Transform '' @ name t @ '' has no sources''))\<close>
proof -
  obtain sel where \<open>buildSelectClause t d = Inr sel\<close> using buildSelectClause_Inr by blast
  with assms show ?thesis
    by (auto simp: exportTransform_def Let_def buildFromClause_cases)
qed

lemma exportTransform_some_sources:
  assumes \<open>sources t = Some (s # ss)\<close>
  shows \<open>\<exists>out. exportTransform t d = Inr out\<close>
proof -
  obtain sel where \<open>buildSelectClause t d = Inr sel\<close> using buildSelectClause_Inr by blast
  with assms show ?thesis
    by (simp add: exportTransform_def Let_def buildFromClause_cases)
qed

lemma generateDbtModel_no_sources:
  assumes \<open>sources t = None \<or> sources t = Some []\<close>
  shows \<open>generateDbtModel sc t = Inl (Error (''Transform '' @ name t @ '' has no sources''))\<close>
proof -
  obtain sel where \<open>dbt_buildSelectClause t = Inr sel\<close> using dbt_buildSelectClause_Inr by blast
  with assms show ?thesis
    by (auto simp: generateDbtModel_def Let_def dbt_buildFromClause_cases)
qed

lemma generateDbtModel_some_sources:
  assumes \<open>sources t = Some (s # ss)\<close>
  shows \<open>\<exists>out. generateDbtModel sc t = Inr out\<close>
proof -
  obtain sel where \<open>dbt_buildSelectClause t = Inr sel\<close> using dbt_buildSelectClause_Inr by blast
  with assms show ?thesis
    by (simp add: generateDbtModel_def Let_def dbt_buildFromClause_cases)
qed

lemma exportTransform_shape:
  assumes \<open>sources t = Some (s # ss)\<close>
  shows \<open>exportTransform t d =
           Inr (js_join ''\<newline>''
                  ([''-- Transform: '' @ name t,
                    ''CREATE OR REPLACE VIEW "'' @ name t @ ''" AS'',
                    ''SELECT'',
                    projr (buildSelectClause t d),
                    ''FROM '' @ tableName s @ aliasSuffix (src_alias s)]
                   @ buildJoinClauses t d
                   @ filterBoolean [buildWhereClause t d, buildGroupByClause t d,
                                    buildOrderByClause t d, buildLimitClause t d])
                @ '';\<newline>'')\<close>
proof -
  obtain sel where sel: \<open>buildSelectClause t d = Inr sel\<close> \<open>sel \<noteq> []\<close>
    using buildSelectClause_Inr by blast
  have j: \<open>filterBoolean (map Some (buildJoinClauses t d)) = buildJoinClauses t d\<close>
    by (rule filterBoolean_map_Some) (rule buildJoinClauses_nonempty_lines)
  have a: \<open>filterBoolean [Some (''-- Transform: '' @ name t),
                            Some (''CREATE OR REPLACE VIEW "'' @ name t @ ''" AS''),
                            Some ''SELECT'', Some sel,
                            Some (''FROM '' @ (tableName s @ aliasSuffix (src_alias s)))]
             = [''-- Transform: '' @ name t, ''CREATE OR REPLACE VIEW "'' @ name t @ ''" AS'',
                ''SELECT'', sel, ''FROM '' @ tableName s @ aliasSuffix (src_alias s)]\<close>
    using sel by simp
  have f: \<open>buildFromClause t d = Inr (tableName s @ aliasSuffix (src_alias s))\<close>
    using assms by (simp add: buildFromClause_cases)
  show ?thesis
    unfolding exportTransform_def Let_def sel f
    by (simp only: sum.case filterBoolean_append j a sum.sel)
qed

lemma generateDbtModel_shape:
  assumes \<open>sources t = Some (s # ss)\<close>
  shows \<open>generateDbtModel sc t =
           Inr (js_join ''\<newline>''
                  ([''{{'', ''  config('', ''    materialized='' @ [CHR 0x27] @ ''view'' @ [CHR 0x27],
                    ''  )'', ''}}'',
                    ''-- Transform: '' @ name t,
                    ''-- Generated from DBML'',
                    ''SELECT'',
                    projr (dbt_buildSelectClause t),
                    ''FROM '' @ dbt_ref sc s]
                   @ dbt_buildJoinClauses sc t
                   @ filterBoolean [dbt_buildWhereClause t, dbt_buildGroupByClause t,
                                    dbt_buildOrderByClause t, dbt_buildLimitClause t])
                @ ''\<newline>'')\<close>
proof -
  obtain sel where sel: \<open>dbt_buildSelectClause t = Inr sel\<close> \<open>sel \<noteq> []\<close>
    using dbt_buildSelectClause_Inr by blast
  have j: \<open>filterBoolean (map Some (dbt_buildJoinClauses sc t)) = dbt_buildJoinClauses sc t\<close>
    by (rule filterBoolean_map_Some) (rule dbt_buildJoinClauses_nonempty_lines)
  have a: \<open>filterBoolean [Some ''{{'', Some ''  config('',
                            Some (''    materialized='' @ [CHR 0x27] @ ''view'' @ [CHR 0x27]),
                            Some ''  )'', Some ''}}'', Some [],
                            Some (''-- Transform: '' @ name t),
                            Some ''-- Generated from DBML'', Some [],
                            Some ''SELECT'', Some sel,
                            Some (''FROM '' @ dbt_ref sc s)]
             = [''{{'', ''  config('', ''    materialized='' @ [CHR 0x27] @ ''view'' @ [CHR 0x27],
                ''  )'', ''}}'', ''-- Transform: '' @ name t, ''-- Generated from DBML'',
                ''SELECT'', sel, ''FROM '' @ dbt_ref sc s]\<close>
    using sel by simp
  have f: \<open>dbt_buildFromClause sc t = Inr (dbt_ref sc s)\<close>
    using assms by (simp add: dbt_buildFromClause_cases)
  show ?thesis
    unfolding generateDbtModel_def Let_def sel f
    by (simp only: sum.case filterBoolean_append j a sum.sel)
qed

lemma ranked_out:
  \<open>exportTransform rankedTransform ''postgres'' =
     Inr ''-- Transform: Ranked\<newline>CREATE OR REPLACE VIEW "Ranked" AS\<newline>SELECT\<newline>  ROW_NUMBER() OVER (PARTITION BY "Orders.user_id" ORDER BY "Orders"."total_amount" DESC) AS "rank"\<newline>FROM "Orders";\<newline>''\<close>
  by (simp add: rankedTransform_def export_defs)

lemma where_out:
  \<open>exportTransform whereTransform ''postgres'' =
     Inr ''-- Transform: WHERE_LIMIT\<newline>CREATE OR REPLACE VIEW "WHERE_LIMIT" AS\<newline>SELECT\<newline>  *\<newline>FROM "Orders";\<newline>''\<close>
  by (simp add: whereTransform_def export_defs)

section \<open>Columns and the order-by parser\<close>

lemma columnRef_nonempty: \<open>columnRef col \<noteq> []\<close>
  by (simp add: columnRef_def)

lemma valueFamily_not_rank: \<open>f \<in> set valueFamily \<Longrightarrow> f \<notin> set rankFamily\<close>
  by (auto simp: valueFamily_def rankFamily_def)

lemma buildWindowColumn_unfolded:
  assumes \<open>window col = Some w\<close>
  shows \<open>\<exists>over.
           buildWindowColumn col dialect =
             Inr (''  '' @ toUpperCase (win_function w) @ ''(''
                    @ (if toUpperCase (win_function w) \<in> set rankFamily then [] else columnRef col)
                    @ '') OVER ('' @ over @ '')'' @ aliasSuffix (col_alias col))
         \<and> (\<not> nonEmpty (win_partitionBy w) \<and> \<not> nonEmpty (win_orderBy w) \<and> \<not> truthy (win_frame w)
              \<longrightarrow> over = [])\<close>
proof -
  define func where \<open>func = toUpperCase (win_function w)\<close>
  define args where
    \<open>args = (if func \<in> set valueFamily then columnRef col
             else if func \<in> set rankFamily then [] else columnRef col)\<close>
  define o1 where
    \<open>o1 = (if nonEmpty (win_partitionBy w) then
             ''PARTITION BY ''
               @ js_join '', '' (map (\<lambda>p. ''"'' @ p @ ''"'') (orEmpty (win_partitionBy w)))
           else [])\<close>
  define o2 where
    \<open>o2 = (if nonEmpty (win_orderBy w) then
             o1 @ (if o1 \<noteq> [] then '' '' else [])
               @ ''ORDER BY '' @ js_join '', '' (map orderTerm (orEmpty (win_orderBy w)))
           else o1)\<close>
  define over where
    \<open>over = (if truthy (win_frame w) then
               o2 @ (if o2 \<noteq> [] then '' '' else []) @ the (win_frame w)
             else o2)\<close>
  have args: \<open>args = (if func \<in> set rankFamily then [] else columnRef col)\<close>
    using valueFamily_not_rank [of func] by (simp add: args_def)
  have \<open>buildWindowColumn col dialect =
          Inr (''  '' @ (if over \<noteq> [] then
                           (if args \<noteq> [] then func @ ''('' @ args @ '')'' else func @ ''()'')
                             @ '' OVER ('' @ over @ '')''
                         else (if args \<noteq> [] then func @ ''('' @ args @ '')'' else func @ ''()'')
                             @ '' OVER ()'')
                 @ aliasSuffix (col_alias col))\<close>
    using assms
    by (simp only: buildWindowColumn_def Let_def func_def args_def o1_def o2_def over_def
        option.case)
  also have \<open>\<dots> = Inr (''  '' @ func @ ''('' @ args @ '') OVER ('' @ over @ '')''
                        @ aliasSuffix (col_alias col))\<close>
    by (cases \<open>over = []\<close>; cases \<open>args = []\<close>) simp_all
  finally have eq: \<open>buildWindowColumn col dialect =
      Inr (''  '' @ func @ ''('' @ args @ '') OVER ('' @ over @ '')'' @ aliasSuffix (col_alias col))\<close> .
  have empty: \<open>\<not> nonEmpty (win_partitionBy w) \<and> \<not> nonEmpty (win_orderBy w) \<and> \<not> truthy (win_frame w)
              \<longrightarrow> over = []\<close>
    by (simp add: over_def o2_def o1_def)
  from eq empty show ?thesis
    unfolding args func_def by blast
qed

lemma case_two_elements:
  \<open>(case xs of [] \<Rightarrow> d | [t] \<Rightarrow> d | [t, c] \<Rightarrow> f t c | t # c # e # r \<Rightarrow> d)
     = (if length xs = 2 then f (xs ! 0) (xs ! 1) else d)\<close>
  by (simp split: list.splits)

lemma parseOrderBy_spec:
  \<open>parseOrderBy fe expr = spec_orderTerms (unwrap_or (destructureComplexVariable fe expr) [])\<close>
proof -
  define fragments where \<open>fragments = unwrap_or (destructureComplexVariable fe expr) []\<close>
  show ?thesis
  proof (cases \<open>fragments = []\<close>)
    case True
    then show ?thesis
      by (simp add: parseOrderBy_def spec_orderTerms_def fragments_def [symmetric])
  next
    case False
    then show ?thesis
      unfolding parseOrderBy_def spec_orderTerms_def fragments_def [symmetric]
        spec_isDirection_def Let_def case_two_elements
      by simp
  qed
qed

section \<open>Limits\<close>

lemma filterBoolean_member:
  \<open>Some x \<in> set ps \<Longrightarrow> x \<noteq> [] \<Longrightarrow> x \<in> set (filterBoolean ps)\<close>
  by (induction ps) (auto split: option.splits)

lemma str_includes_append_right: \<open>str_includes a n \<Longrightarrow> str_includes (a @ b) n\<close>
  unfolding str_includes_iff by (metis append_assoc)

lemma limit_clause_emitted:
  assumes \<open>sources t = Some (s # ss)\<close> and \<open>limit t = Some n\<close> and \<open>n \<noteq> 0\<close>
    and \<open>\<bar>n\<bar> < 10 ^ 21\<close>
  shows \<open>\<exists>out. exportTransform t d = Inr out \<and> str_includes out (''LIMIT '' @ string_of_int n)\<close>
proof -
  let ?l = \<open>''LIMIT '' @ string_of_int n\<close>
  let ?opt = \<open>[buildWhereClause t d, buildGroupByClause t d,
               buildOrderByClause t d, buildLimitClause t d]\<close>
  let ?parts = \<open>[''-- Transform: '' @ name t,
                 ''CREATE OR REPLACE VIEW "'' @ name t @ ''" AS'',
                 ''SELECT'',
                 projr (buildSelectClause t d),
                 ''FROM '' @ tableName s @ aliasSuffix (src_alias s)]
                @ buildJoinClauses t d @ filterBoolean ?opt\<close>
  from assms(2,3) have \<open>buildLimitClause t d = Some ?l\<close>
    by (simp add: buildLimitClause_def)
  then have \<open>Some ?l \<in> set ?opt\<close> by simp
  then have \<open>?l \<in> set (filterBoolean ?opt)\<close>
    by (rule filterBoolean_member) simp
  then have \<open>?l \<in> set ?parts\<close> by simp
  then have \<open>str_includes (js_join ''\<newline>'' ?parts) ?l\<close>
    by (rule js_join_includes_element)
  then have \<open>str_includes (js_join ''\<newline>'' ?parts @ '';\<newline>'') ?l\<close>
    by (rule str_includes_append_right)
  with exportTransform_shape [OF assms(1), of d] show ?thesis by simp
qed

lemma interpretLimit_not_a_number:
  assumes \<open>stmt_expression statement = Some expr\<close>
    and \<open>parseInt (unwrap_or (extractVariableFromExpression fe expr) ''0'') = None\<close>
  shows \<open>interpretLimit fe statement transform =
           Inr ([\<lparr>code = INVALID_NAME, diagnostic = ''Limit must be a number'',
                   nodeOrToken = statement\<rparr>], transform)\<close>
  using assms by (simp add: interpretLimit_def compileError_def)

lemma parseInt_None_iff:
  \<open>parseInt s = None \<longleftrightarrow>
     (case dropWhile isWhiteSpace s of
        [] \<Rightarrow> True
      | c # r \<Rightarrow> if c = CHR ''-'' \<or> c = CHR ''+'' then (case r of [] \<Rightarrow> True | x # _ \<Rightarrow> \<not> isDigit x)
                 else \<not> isDigit c)\<close>
proof -
  define t where \<open>t = dropWhile isWhiteSpace s\<close>
  show ?thesis
    unfolding parseInt_def Let_def t_def [symmetric]
    by (cases t) (auto simp: takeWhile_eq_Nil_iff split: list.splits)
qed

lemma parseInt_abc: \<open>parseInt ''abc'' = None\<close>
  by (simp add: parse_defs)

lemma parseInt_leading_digits: \<open>parseInt ''10abc'' = Some 10\<close>
  by (simp add: parse_defs)

section \<open>Code generation: errors and join clauses\<close>

text \<open>
  Claim C1. SQL emission and dbt model generation throw exactly when the sources of
  the Transform are absent or empty, and return a string for every Transform with
  at least one source. Every other empty part is harmless: without columns the
  select list is \<^verbatim>\<open>*\<close>; without joins every later source gets a \<^verbatim>\<open>CROSS JOIN\<close> line
  with no \<^verbatim>\<open>ON\<close>; without filters, groupBy, orderBy or limit the builder of the clause
  returns nothing, and what a builder does not return is not part of the text.
\<close>

theorem emission_throws_iff_no_sources:
  \<open>((\<exists>e. exportTransform t d = Inl e) \<longleftrightarrow> (sources t = None \<or> sources t = Some []))
   \<and> ((\<exists>e. generateDbtModel sc t = Inl e) \<longleftrightarrow> (sources t = None \<or> sources t = Some []))
   \<and> ((\<exists>out. exportTransform t d = Inr out) \<longleftrightarrow> (\<exists>s ss. sources t = Some (s # ss)))
   \<and> ((\<exists>out. generateDbtModel sc t = Inr out) \<longleftrightarrow> (\<exists>s ss. sources t = Some (s # ss)))
   \<and> (\<not> nonEmpty (columns t) \<longrightarrow>
        buildSelectClause t d = Inr ''  *'' \<and> dbt_buildSelectClause t = Inr ''  *'')
   \<and> (\<not> nonEmpty (joins t) \<longrightarrow>
        buildJoinClauses t d =
          map (\<lambda>s. ''  CROSS JOIN '' @ tableName s @ aliasSuffix (src_alias s))
            (drop 1 (orEmpty (sources t)))
        \<and> dbt_buildJoinClauses sc t =
          map (\<lambda>s. ''  CROSS JOIN '' @ dbt_ref sc s) (drop 1 (orEmpty (sources t))))
   \<and> (\<not> nonEmpty (filters t) \<longrightarrow> buildWhereClause t d = None \<and> dbt_buildWhereClause t = None)
   \<and> (\<not> nonEmpty (groupBy t) \<longrightarrow> buildGroupByClause t d = None \<and> dbt_buildGroupByClause t = None)
   \<and> (\<not> nonEmpty (orderBy t) \<longrightarrow> buildOrderByClause t d = None \<and> dbt_buildOrderByClause t = None)
   \<and> (limit t = None \<longrightarrow> buildLimitClause t d = None \<and> dbt_buildLimitClause t = None)
   \<and> (\<forall>s ss. sources t = Some (s # ss) \<longrightarrow>
         exportTransform t d =
           Inr (js_join ''\<newline>''
                  ([''-- Transform: '' @ name t,
                    ''CREATE OR REPLACE VIEW "'' @ name t @ ''" AS'',
                    ''SELECT'',
                    projr (buildSelectClause t d),
                    ''FROM '' @ tableName s @ aliasSuffix (src_alias s)]
                   @ buildJoinClauses t d
                   @ filterBoolean [buildWhereClause t d, buildGroupByClause t d,
                                    buildOrderByClause t d, buildLimitClause t d])
                @ '';\<newline>'')
         \<and> generateDbtModel sc t =
           Inr (js_join ''\<newline>''
                  ([''{{'', ''  config('', ''    materialized='' @ [CHR 0x27] @ ''view'' @ [CHR 0x27],
                    ''  )'', ''}}'',
                    ''-- Transform: '' @ name t,
                    ''-- Generated from DBML'',
                    ''SELECT'',
                    projr (dbt_buildSelectClause t),
                    ''FROM '' @ dbt_ref sc s]
                   @ dbt_buildJoinClauses sc t
                   @ filterBoolean [dbt_buildWhereClause t, dbt_buildGroupByClause t,
                                    dbt_buildOrderByClause t, dbt_buildLimitClause t])
                @ ''\<newline>''))\<close>
proof -
  have sql: \<open>(\<exists>e. exportTransform t d = Inl e) \<longleftrightarrow> (sources t = None \<or> sources t = Some [])\<close>
    and sql': \<open>(\<exists>out. exportTransform t d = Inr out) \<longleftrightarrow> (\<exists>s ss. sources t = Some (s # ss))\<close>
    by (rule sources_cases [of t];
        use exportTransform_no_sources [of t d] exportTransform_some_sources [of t _ _ d]
        in fastforce)+
  have dbt: \<open>(\<exists>e. generateDbtModel sc t = Inl e) \<longleftrightarrow> (sources t = None \<or> sources t = Some [])\<close>
    and dbt': \<open>(\<exists>out. generateDbtModel sc t = Inr out) \<longleftrightarrow> (\<exists>s ss. sources t = Some (s # ss))\<close>
    by (rule sources_cases [of t];
        use generateDbtModel_no_sources [of t sc] generateDbtModel_some_sources [of t _ _ sc]
        in fastforce)+
  have cols: \<open>\<not> nonEmpty (columns t) \<longrightarrow>
        buildSelectClause t d = Inr ''  *'' \<and> dbt_buildSelectClause t = Inr ''  *''\<close>
    by (simp add: buildSelectClause_def dbt_buildSelectClause_def)
  have js: \<open>\<not> nonEmpty (joins t) \<longrightarrow>
        buildJoinClauses t d =
          map (\<lambda>s. ''  CROSS JOIN '' @ tableName s @ aliasSuffix (src_alias s))
            (drop 1 (orEmpty (sources t)))
        \<and> dbt_buildJoinClauses sc t =
          map (\<lambda>s. ''  CROSS JOIN '' @ dbt_ref sc s) (drop 1 (orEmpty (sources t)))\<close>
  proof
    assume \<open>\<not> nonEmpty (joins t)\<close>
    then have e: \<open>orEmpty (joins t) = []\<close>
      by (cases \<open>joins t\<close>) (auto simp: nonEmpty_def orEmpty_def)
    show \<open>buildJoinClauses t d =
          map (\<lambda>s. ''  CROSS JOIN '' @ tableName s @ aliasSuffix (src_alias s))
            (drop 1 (orEmpty (sources t)))
        \<and> dbt_buildJoinClauses sc t =
          map (\<lambda>s. ''  CROSS JOIN '' @ dbt_ref sc s) (drop 1 (orEmpty (sources t)))\<close>
    proof (rule sources_cases [of t])
      assume \<open>sources t = None \<or> sources t = Some []\<close>
      then show ?thesis
        by (auto simp: buildJoinClauses_no_sources dbt_buildJoinClauses_no_sources orEmpty_def)
    next
      fix s ss
      assume \<open>sources t = Some (s # ss)\<close>
      then show ?thesis
        by (simp add: buildJoinClauses_lines dbt_buildJoinClauses_lines e) (simp add: orEmpty_def)
    qed
  qed
  have w: \<open>\<not> nonEmpty (filters t) \<longrightarrow> buildWhereClause t d = None \<and> dbt_buildWhereClause t = None\<close>
    by (simp add: buildWhereClause_def dbt_buildWhereClause_def)
  have g: \<open>\<not> nonEmpty (groupBy t) \<longrightarrow> buildGroupByClause t d = None \<and> dbt_buildGroupByClause t = None\<close>
    by (simp add: buildGroupByClause_def dbt_buildGroupByClause_def)
  have ob: \<open>\<not> nonEmpty (orderBy t) \<longrightarrow> buildOrderByClause t d = None \<and> dbt_buildOrderByClause t = None\<close>
    by (simp add: buildOrderByClause_def dbt_buildOrderByClause_def)
  have l: \<open>limit t = None \<longrightarrow> buildLimitClause t d = None \<and> dbt_buildLimitClause t = None\<close>
    by (simp add: buildLimitClause_def dbt_buildLimitClause_def)
  have sh: \<open>\<forall>s ss. sources t = Some (s # ss) \<longrightarrow>
         exportTransform t d =
           Inr (js_join ''\<newline>''
                  ([''-- Transform: '' @ name t,
                    ''CREATE OR REPLACE VIEW "'' @ name t @ ''" AS'',
                    ''SELECT'',
                    projr (buildSelectClause t d),
                    ''FROM '' @ tableName s @ aliasSuffix (src_alias s)]
                   @ buildJoinClauses t d
                   @ filterBoolean [buildWhereClause t d, buildGroupByClause t d,
                                    buildOrderByClause t d, buildLimitClause t d])
                @ '';\<newline>'')
         \<and> generateDbtModel sc t =
           Inr (js_join ''\<newline>''
                  ([''{{'', ''  config('', ''    materialized='' @ [CHR 0x27] @ ''view'' @ [CHR 0x27],
                    ''  )'', ''}}'',
                    ''-- Transform: '' @ name t,
                    ''-- Generated from DBML'',
                    ''SELECT'',
                    projr (dbt_buildSelectClause t),
                    ''FROM '' @ dbt_ref sc s]
                   @ dbt_buildJoinClauses sc t
                   @ filterBoolean [dbt_buildWhereClause t, dbt_buildGroupByClause t,
                                    dbt_buildOrderByClause t, dbt_buildLimitClause t])
                @ ''\<newline>'')\<close>
  proof (intro allI impI conjI)
    fix s ss
    assume a: \<open>sources t = Some (s # ss)\<close>
    show \<open>exportTransform t d =
           Inr (js_join ''\<newline>''
                  ([''-- Transform: '' @ name t,
                    ''CREATE OR REPLACE VIEW "'' @ name t @ ''" AS'',
                    ''SELECT'',
                    projr (buildSelectClause t d),
                    ''FROM '' @ tableName s @ aliasSuffix (src_alias s)]
                   @ buildJoinClauses t d
                   @ filterBoolean [buildWhereClause t d, buildGroupByClause t d,
                                    buildOrderByClause t d, buildLimitClause t d])
                @ '';\<newline>'')\<close>
      by (rule exportTransform_shape [OF a])
    show \<open>generateDbtModel sc t =
           Inr (js_join ''\<newline>''
                  ([''{{'', ''  config('', ''    materialized='' @ [CHR 0x27] @ ''view'' @ [CHR 0x27],
                    ''  )'', ''}}'',
                    ''-- Transform: '' @ name t,
                    ''-- Generated from DBML'',
                    ''SELECT'',
                    projr (dbt_buildSelectClause t),
                    ''FROM '' @ dbt_ref sc s]
                   @ dbt_buildJoinClauses sc t
                   @ filterBoolean [dbt_buildWhereClause t, dbt_buildGroupByClause t,
                                    dbt_buildOrderByClause t, dbt_buildLimitClause t])
                @ ''\<newline>'')\<close>
      by (rule generateDbtModel_shape [OF a])
  qed
  show ?thesis
    by (intro conjI) (fact sql dbt sql' dbt' cols js w g ob l sh)+
qed

theorem emission_throws_iff_no_sources_witness:
  \<open>exportTransform (demoTransform\<lparr>sources := Some []\<rparr>) ''postgres''
     = Inl (Error ''Transform TopOrders has no sources'')
   \<and> \<not> isl (exportTransform demoTransform ''postgres'')
   \<and> \<not> isl (generateDbtModel id demoTransform)
   \<and> buildSelectClause demoTransform ''postgres'' = Inr ''  *''
   \<and> buildJoinClauses demoTransform ''postgres'' = []
   \<and> buildWhereClause demoTransform ''postgres'' = None
   \<and> buildGroupByClause demoTransform ''postgres'' = None
   \<and> buildOrderByClause demoTransform ''postgres'' = None
   \<and> buildLimitClause demoTransform ''postgres'' = None\<close>
proof -
  have n: \<open>\<not> nonEmpty (columns demoTransform)\<close> \<open>\<not> nonEmpty (joins demoTransform)\<close>
    \<open>\<not> nonEmpty (filters demoTransform)\<close> \<open>\<not> nonEmpty (groupBy demoTransform)\<close>
    \<open>\<not> nonEmpty (orderBy demoTransform)\<close> \<open>limit demoTransform = None\<close>
    and s: \<open>sources demoTransform = Some [plainSource ''Orders'']\<close>
    by (simp_all add: demoTransform_def nonEmpty_def)
  have e: \<open>exportTransform (demoTransform\<lparr>sources := Some []\<rparr>) ''postgres''
     = Inl (Error ''Transform TopOrders has no sources'')\<close>
    by (simp add: demoTransform_def export_defs)
  from n s e emission_throws_iff_no_sources [of demoTransform \<open>''postgres''\<close> id]
  show ?thesis
    by (auto simp: orEmpty_def)
qed

text \<open>
  Claim C2. For sources \<open>s1 # rest\<close> the SQL emitter produces one join line for each
  source of \<open>rest\<close>, in source order, and that line is the clause the specification
  describes: a single \<^verbatim>\<open>INNER JOIN\<close> whose \<^verbatim>\<open>ON\<close> body is every matching Join's
  condition joined with \<^verbatim>\<open>AND\<close> when some Join names the source on its left or right,
  a \<^verbatim>\<open>CROSS JOIN\<close> with no \<^verbatim>\<open>ON\<close> otherwise. The lines stand in the emitted
  statement between the \<^verbatim>\<open>FROM\<close> line and the optional clauses.
\<close>

theorem buildJoinClauses_per_source:
  assumes \<open>sources t = Some (s1 # rest)\<close>
  shows \<open>buildJoinClauses t d = map (spec_joinClause (orEmpty (joins t))) rest
       \<and> exportTransform t d =
           Inr (js_join ''\<newline>''
                  ([''-- Transform: '' @ name t,
                    ''CREATE OR REPLACE VIEW "'' @ name t @ ''" AS'',
                    ''SELECT'',
                    projr (buildSelectClause t d),
                    ''FROM '' @ tableName s1 @ aliasSuffix (src_alias s1)]
                   @ map (spec_joinClause (orEmpty (joins t))) rest
                   @ filterBoolean [buildWhereClause t d, buildGroupByClause t d,
                                    buildOrderByClause t d, buildLimitClause t d])
                @ '';\<newline>'')\<close>
  using exportTransform_shape [OF assms, of d] buildJoinClauses_map [OF assms, of d]
  by simp

theorem buildJoinClauses_per_source_witness:
  \<open>buildJoinClauses demoJoinTransform ''postgres'' =
     [''  INNER JOIN "Orders" ON "Users"."id" = "Orders"."user_id" AND "Orders"."order_id" = "Payments"."order_id"'',
      ''  INNER JOIN "Payments" ON "Orders"."order_id" = "Payments"."order_id"'',
      ''  CROSS JOIN "Logs"'']\<close>
  using buildJoinClauses_per_source
    [of demoJoinTransform \<open>plainSource ''Users''\<close>
        \<open>[plainSource ''Orders'', plainSource ''Payments'', plainSource ''Logs'']\<close> \<open>''postgres''\<close>]
  by (simp add: demoJoinTransform_def plainSource_def orEmpty_def spec_joinClause_def
      spec_matchingJoins_def spec_joinCondition_def tableName_def aliasSuffix_def truthy_def)

text \<open>
  Claim C8. A Join whose left table names one later source and whose right table
  names another later source matches both of them: in the SQL emitter and in the
  dbt emitter the line of each of the two sources is an \<^verbatim>\<open>INNER JOIN\<close> whose \<^verbatim>\<open>ON\<close>
  body is built from a list of conditions that has this Join in it, so the body
  contains the Join's comparison both times: \<^verbatim>\<open>"lt"."lc" OP "rt"."rc"\<close> in the SQL
  emitter and \<^verbatim>\<open>lt.lc OP rt.rc\<close>, after \<^verbatim>\<open>{{ ref('...') }} AS ...\<close>, in the dbt emitter.
\<close>

theorem join_between_later_sources_rendered_twice:
  assumes \<open>sources t = Some (first # rest)\<close>
    and \<open>j \<in> set (orEmpty (joins t))\<close>
    and \<open>a < length rest\<close> and \<open>b < length rest\<close> and \<open>a \<noteq> b\<close>
    and \<open>src_name (rest ! a) = leftTable j\<close>
    and \<open>src_name (rest ! b) = rightTable j\<close>
  shows \<open>\<forall>i \<in> {a, b}.
           (\<exists>body. buildJoinClauses t d ! i =
                      ''  INNER JOIN '' @ tableName (rest ! i) @ aliasSuffix (src_alias (rest ! i))
                        @ '' ON '' @ body
                  \<and> body = js_join '' AND ''
                             (map onClause (filter (joinMatches (rest ! i)) (orEmpty (joins t))))
                  \<and> j \<in> set (filter (joinMatches (rest ! i)) (orEmpty (joins t)))
                  \<and> str_includes body (onClause j)
                  \<and> str_includes body
                      (''"'' @ leftTable j @ ''"."'' @ leftColumn j @ ''" '' @ operator j
                         @ '' "'' @ rightTable j @ ''"."'' @ rightColumn j @ ''"''))
         \<and> (\<exists>body. dbt_buildJoinClauses sc t ! i =
                      ''  INNER JOIN '' @ dbt_ref sc (rest ! i) @ '' ON '' @ body
                  \<and> dbt_buildJoinClauses sc t ! i =
                      ''  INNER JOIN {{ ref('' @ [CHR 0x27] @ sc (src_name (rest ! i)) @ [CHR 0x27]
                        @ '') }} AS ''
                        @ (if truthy (src_alias (rest ! i)) then the (src_alias (rest ! i))
                           else src_name (rest ! i))
                        @ '' ON '' @ body
                  \<and> body = js_join '' AND ''
                             (map dbt_onClause (filter (joinMatches (rest ! i)) (orEmpty (joins t))))
                  \<and> j \<in> set (filter (joinMatches (rest ! i)) (orEmpty (joins t)))
                  \<and> str_includes body (dbt_onClause j)
                  \<and> str_includes body
                      (leftTable j @ ''.'' @ leftColumn j @ '' '' @ operator j @ '' ''
                         @ rightTable j @ ''.'' @ rightColumn j))\<close>
proof
  fix i
  assume \<open>i \<in> {a, b}\<close>
  with assms have i: \<open>i < length rest\<close> and m: \<open>joinMatches (rest ! i) j\<close>
    by (auto simp: joinMatches_def)
  let ?conds = \<open>filter (joinMatches (rest ! i)) (orEmpty (joins t))\<close>
  let ?sqlBody = \<open>js_join '' AND '' (map onClause ?conds)\<close>
  let ?dbtBody = \<open>js_join '' AND '' (map dbt_onClause ?conds)\<close>
  from m assms(2) have mem: \<open>j \<in> set ?conds\<close> by simp
  have ne: \<open>?conds \<noteq> []\<close>
  proof
    assume \<open>?conds = []\<close>
    with mem show False by (simp only: set_simps empty_iff)
  qed
  have sql: \<open>buildJoinClauses t d ! i =
               ''  INNER JOIN '' @ tableName (rest ! i) @ aliasSuffix (src_alias (rest ! i))
                 @ '' ON '' @ ?sqlBody\<close>
    using i ne by (simp add: buildJoinClauses_lines [OF assms(1)])
  have dbt: \<open>dbt_buildJoinClauses sc t ! i =
               ''  INNER JOIN '' @ dbt_ref sc (rest ! i) @ '' ON '' @ ?dbtBody\<close>
    using i ne by (simp add: dbt_buildJoinClauses_lines [OF assms(1)])
  have r: \<open>dbt_ref sc (rest ! i) =
             ''{{ ref('' @ [CHR 0x27] @ sc (src_name (rest ! i)) @ [CHR 0x27] @ '') }} AS ''
               @ (if truthy (src_alias (rest ! i)) then the (src_alias (rest ! i))
                  else src_name (rest ! i))\<close>
    by (simp add: dbt_ref_def Let_def)
  have dbt': \<open>dbt_buildJoinClauses sc t ! i =
               ''  INNER JOIN {{ ref('' @ [CHR 0x27] @ sc (src_name (rest ! i)) @ [CHR 0x27]
                 @ '') }} AS ''
                 @ (if truthy (src_alias (rest ! i)) then the (src_alias (rest ! i))
                    else src_name (rest ! i))
                 @ '' ON '' @ ?dbtBody\<close>
    unfolding dbt r by simp
  have oc: \<open>onClause j =
              ''"'' @ leftTable j @ ''"."'' @ leftColumn j @ ''" '' @ operator j
                @ '' "'' @ rightTable j @ ''"."'' @ rightColumn j @ ''"''\<close>
    by (simp add: onClause_def Let_def)
  have doc: \<open>dbt_onClause j =
               leftTable j @ ''.'' @ leftColumn j @ '' '' @ operator j @ '' ''
                 @ rightTable j @ ''.'' @ rightColumn j\<close>
    by (simp add: dbt_onClause_def)
  have inc: \<open>str_includes ?sqlBody (onClause j)\<close>
    by (rule js_join_includes_element) (use mem in \<open>simp only: set_map image_eqI\<close>)
  have dinc: \<open>str_includes ?dbtBody (dbt_onClause j)\<close>
    by (rule js_join_includes_element) (use mem in \<open>simp only: set_map image_eqI\<close>)
  have inc': \<open>str_includes ?sqlBody
                (''"'' @ leftTable j @ ''"."'' @ leftColumn j @ ''" '' @ operator j
                   @ '' "'' @ rightTable j @ ''"."'' @ rightColumn j @ ''"'')\<close>
    using inc by (simp only: oc)
  have dinc': \<open>str_includes ?dbtBody
                 (leftTable j @ ''.'' @ leftColumn j @ '' '' @ operator j @ '' ''
                    @ rightTable j @ ''.'' @ rightColumn j)\<close>
    using dinc by (simp only: doc)
  have s: \<open>\<exists>body. buildJoinClauses t d ! i =
                      ''  INNER JOIN '' @ tableName (rest ! i) @ aliasSuffix (src_alias (rest ! i))
                        @ '' ON '' @ body
                  \<and> body = js_join '' AND ''
                             (map onClause (filter (joinMatches (rest ! i)) (orEmpty (joins t))))
                  \<and> j \<in> set (filter (joinMatches (rest ! i)) (orEmpty (joins t)))
                  \<and> str_includes body (onClause j)
                  \<and> str_includes body
                      (''"'' @ leftTable j @ ''"."'' @ leftColumn j @ ''" '' @ operator j
                         @ '' "'' @ rightTable j @ ''"."'' @ rightColumn j @ ''"'')\<close>
    by (rule exI [of _ ?sqlBody]) (intro conjI sql refl mem inc inc')
  have b: \<open>\<exists>body. dbt_buildJoinClauses sc t ! i =
                      ''  INNER JOIN '' @ dbt_ref sc (rest ! i) @ '' ON '' @ body
                  \<and> dbt_buildJoinClauses sc t ! i =
                      ''  INNER JOIN {{ ref('' @ [CHR 0x27] @ sc (src_name (rest ! i)) @ [CHR 0x27]
                        @ '') }} AS ''
                        @ (if truthy (src_alias (rest ! i)) then the (src_alias (rest ! i))
                           else src_name (rest ! i))
                        @ '' ON '' @ body
                  \<and> body = js_join '' AND ''
                             (map dbt_onClause (filter (joinMatches (rest ! i)) (orEmpty (joins t))))
                  \<and> j \<in> set (filter (joinMatches (rest ! i)) (orEmpty (joins t)))
                  \<and> str_includes body (dbt_onClause j)
                  \<and> str_includes body
                      (leftTable j @ ''.'' @ leftColumn j @ '' '' @ operator j @ '' ''
                         @ rightTable j @ ''.'' @ rightColumn j)\<close>
    by (rule exI [of _ ?dbtBody]) (intro conjI dbt dbt' refl mem dinc dinc')
  from s b
  show \<open>(\<exists>body. buildJoinClauses t d ! i =
                      ''  INNER JOIN '' @ tableName (rest ! i) @ aliasSuffix (src_alias (rest ! i))
                        @ '' ON '' @ body
                  \<and> body = js_join '' AND ''
                             (map onClause (filter (joinMatches (rest ! i)) (orEmpty (joins t))))
                  \<and> j \<in> set (filter (joinMatches (rest ! i)) (orEmpty (joins t)))
                  \<and> str_includes body (onClause j)
                  \<and> str_includes body
                      (''"'' @ leftTable j @ ''"."'' @ leftColumn j @ ''" '' @ operator j
                         @ '' "'' @ rightTable j @ ''"."'' @ rightColumn j @ ''"''))
         \<and> (\<exists>body. dbt_buildJoinClauses sc t ! i =
                      ''  INNER JOIN '' @ dbt_ref sc (rest ! i) @ '' ON '' @ body
                  \<and> dbt_buildJoinClauses sc t ! i =
                      ''  INNER JOIN {{ ref('' @ [CHR 0x27] @ sc (src_name (rest ! i)) @ [CHR 0x27]
                        @ '') }} AS ''
                        @ (if truthy (src_alias (rest ! i)) then the (src_alias (rest ! i))
                           else src_name (rest ! i))
                        @ '' ON '' @ body
                  \<and> body = js_join '' AND ''
                             (map dbt_onClause (filter (joinMatches (rest ! i)) (orEmpty (joins t))))
                  \<and> j \<in> set (filter (joinMatches (rest ! i)) (orEmpty (joins t)))
                  \<and> str_includes body (dbt_onClause j)
                  \<and> str_includes body
                      (leftTable j @ ''.'' @ leftColumn j @ '' '' @ operator j @ '' ''
                         @ rightTable j @ ''.'' @ rightColumn j))\<close>
    by (rule conjI)
qed

theorem join_between_later_sources_rendered_twice_witness:
  \<open>buildJoinClauses demoJoinTransform ''postgres'' ! 0 =
     ''  INNER JOIN "Orders" ON "Users"."id" = "Orders"."user_id" AND "Orders"."order_id" = "Payments"."order_id"''
   \<and> buildJoinClauses demoJoinTransform ''postgres'' ! 1 =
     ''  INNER JOIN "Payments" ON "Orders"."order_id" = "Payments"."order_id"''
   \<and> str_includes (buildJoinClauses demoJoinTransform ''postgres'' ! 0)
        ''"Orders"."order_id" = "Payments"."order_id"''
   \<and> str_includes (buildJoinClauses demoJoinTransform ''postgres'' ! 1)
        ''"Orders"."order_id" = "Payments"."order_id"''
   \<and> dbt_buildJoinClauses id demoJoinTransform ! 0 =
     ''  INNER JOIN {{ ref('' @ [CHR 0x27] @ ''Orders'' @ [CHR 0x27]
       @ '') }} AS Orders ON Users.id = Orders.user_id AND Orders.order_id = Payments.order_id''
   \<and> dbt_buildJoinClauses id demoJoinTransform ! 1 =
     ''  INNER JOIN {{ ref('' @ [CHR 0x27] @ ''Payments'' @ [CHR 0x27]
       @ '') }} AS Payments ON Orders.order_id = Payments.order_id''
   \<and> str_includes (dbt_buildJoinClauses id demoJoinTransform ! 0)
        ''Orders.order_id = Payments.order_id''
   \<and> str_includes (dbt_buildJoinClauses id demoJoinTransform ! 1)
        ''Orders.order_id = Payments.order_id''\<close>
proof -
  let ?j = \<open>\<lparr>leftTable = ''Orders'', leftColumn = ''order_id'', operator = ''='',
             rightTable = ''Payments'', rightColumn = ''order_id'', join_token = 1\<rparr>\<close>
  let ?rest = \<open>[plainSource ''Orders'', plainSource ''Payments'', plainSource ''Logs'']\<close>
  have \<open>\<forall>i \<in> {0, 1}.
           (\<exists>body. buildJoinClauses demoJoinTransform ''postgres'' ! i =
                      ''  INNER JOIN '' @ tableName (?rest ! i) @ aliasSuffix (src_alias (?rest ! i))
                        @ '' ON '' @ body
                  \<and> body = js_join '' AND ''
                             (map onClause (filter (joinMatches (?rest ! i))
                                              (orEmpty (joins demoJoinTransform))))
                  \<and> ?j \<in> set (filter (joinMatches (?rest ! i)) (orEmpty (joins demoJoinTransform)))
                  \<and> str_includes body (onClause ?j)
                  \<and> str_includes body
                      (''"'' @ leftTable ?j @ ''"."'' @ leftColumn ?j @ ''" '' @ operator ?j
                         @ '' "'' @ rightTable ?j @ ''"."'' @ rightColumn ?j @ ''"''))
         \<and> (\<exists>body. dbt_buildJoinClauses id demoJoinTransform ! i =
                      ''  INNER JOIN '' @ dbt_ref id (?rest ! i) @ '' ON '' @ body
                  \<and> dbt_buildJoinClauses id demoJoinTransform ! i =
                      ''  INNER JOIN {{ ref('' @ [CHR 0x27] @ id (src_name (?rest ! i)) @ [CHR 0x27]
                        @ '') }} AS ''
                        @ (if truthy (src_alias (?rest ! i)) then the (src_alias (?rest ! i))
                           else src_name (?rest ! i))
                        @ '' ON '' @ body
                  \<and> body = js_join '' AND ''
                             (map dbt_onClause (filter (joinMatches (?rest ! i))
                                                  (orEmpty (joins demoJoinTransform))))
                  \<and> ?j \<in> set (filter (joinMatches (?rest ! i)) (orEmpty (joins demoJoinTransform)))
                  \<and> str_includes body (dbt_onClause ?j)
                  \<and> str_includes body
                      (leftTable ?j @ ''.'' @ leftColumn ?j @ '' '' @ operator ?j @ '' ''
                         @ rightTable ?j @ ''.'' @ rightColumn ?j))\<close>
    by (rule join_between_later_sources_rendered_twice
          [of demoJoinTransform \<open>plainSource ''Users''\<close> ?rest ?j 0 1 \<open>''postgres''\<close> id])
       (simp_all add: demoJoinTransform_def plainSource_def orEmpty_def)
  then show ?thesis
    by (simp add: demoJoinTransform_def plainSource_def orEmpty_def joinMatches_def onClause_def
        dbt_onClause_def dbt_ref_def tableName_def aliasSuffix_def truthy_def Let_def)
qed

section \<open>Code generation: clauses and columns\<close>

text \<open>
  Claim C7, as amended. For a Transform with at least one source and no filters,
  groupBy, orderBy or limit, the emitted statement is exactly the comment line, the
  \<^verbatim>\<open>CREATE\<close> line, \<^verbatim>\<open>SELECT\<close>, the select list, the \<^verbatim>\<open>FROM\<close> line and the join
  lines, joined by newlines and closed by a semicolon: no \<^verbatim>\<open>WHERE\<close>, \<^verbatim>\<open>GROUP BY\<close>,
  \<^verbatim>\<open>ORDER BY\<close> or \<^verbatim>\<open>LIMIT\<close> clause is emitted. Each of these four words occurs in the
  statement only where the comment line, the \<^verbatim>\<open>CREATE\<close> line, the select list, the
  \<^verbatim>\<open>FROM\<close> line or a join line contains it.
\<close>

theorem clause_keywords_only_inside_rendered_parts:
  assumes \<open>sources t = Some (s # ss)\<close>
    and \<open>\<not> nonEmpty (filters t)\<close> and \<open>\<not> nonEmpty (groupBy t)\<close>
    and \<open>\<not> nonEmpty (orderBy t)\<close> and \<open>limit t = None\<close>
    and \<open>k \<in> set [''WHERE'', ''GROUP BY'', ''ORDER BY'', ''LIMIT'']\<close>
  shows \<open>exportTransform t d =
           Inr (js_join ''\<newline>''
                  ([''-- Transform: '' @ name t,
                    ''CREATE OR REPLACE VIEW "'' @ name t @ ''" AS'',
                    ''SELECT'',
                    projr (buildSelectClause t d),
                    ''FROM '' @ tableName s @ aliasSuffix (src_alias s)]
                   @ buildJoinClauses t d)
                @ '';\<newline>'')
       \<and> (str_includes (projr (exportTransform t d)) k \<longrightarrow>
            str_includes (''-- Transform: '' @ name t) k
            \<or> str_includes (''CREATE OR REPLACE VIEW "'' @ name t @ ''" AS'') k
            \<or> str_includes (projr (buildSelectClause t d)) k
            \<or> str_includes (''FROM '' @ tableName s @ aliasSuffix (src_alias s)) k
            \<or> (\<exists>l \<in> set (buildJoinClauses t d). str_includes l k))\<close>
proof -
  let ?parts = \<open>[''-- Transform: '' @ name t,
                    ''CREATE OR REPLACE VIEW "'' @ name t @ ''" AS'',
                    ''SELECT'',
                    projr (buildSelectClause t d),
                    ''FROM '' @ tableName s @ aliasSuffix (src_alias s)]
                   @ buildJoinClauses t d\<close>
  have none: \<open>filterBoolean [buildWhereClause t d, buildGroupByClause t d,
                               buildOrderByClause t d, buildLimitClause t d] = []\<close>
    using assms(2-5)
    by (simp add: buildWhereClause_def buildGroupByClause_def buildOrderByClause_def
        buildLimitClause_def)
  have out: \<open>exportTransform t d = Inr (js_join ''\<newline>'' ?parts @ '';\<newline>'')\<close>
    using exportTransform_shape [OF assms(1), of d] by (simp only: none append_Nil2)
  have k: \<open>CHR '';'' \<notin> set k\<close> \<open>CHR 0x0A \<notin> set k\<close> \<open>k \<noteq> []\<close>
    and sel: \<open>\<not> str_includes ''SELECT'' k\<close>
    using assms(6) by auto
  have \<open>\<exists>p \<in> set ?parts. str_includes p k\<close>
    if h: \<open>str_includes (projr (exportTransform t d)) k\<close>
  proof -
    from h have \<open>str_includes (js_join ''\<newline>'' ?parts @ '';\<newline>'') k\<close>
      by (simp only: out sum.sel)
    then have j: \<open>str_includes (js_join [CHR 0x0A] ?parts) k\<close>
      by (rule str_includes_terminator [OF _ k])
    show ?thesis
      by (rule str_includes_js_join [OF j k(2,3)])
  qed
  with sel have \<open>str_includes (projr (exportTransform t d)) k \<longrightarrow>
            str_includes (''-- Transform: '' @ name t) k
            \<or> str_includes (''CREATE OR REPLACE VIEW "'' @ name t @ ''" AS'') k
            \<or> str_includes (projr (buildSelectClause t d)) k
            \<or> str_includes (''FROM '' @ tableName s @ aliasSuffix (src_alias s)) k
            \<or> (\<exists>l \<in> set (buildJoinClauses t d). str_includes l k)\<close>
    by (auto simp del: str_includes.simps)
  with out show ?thesis by blast
qed

theorem clause_keywords_only_inside_rendered_parts_witness:
  \<open>exportTransform demoTransform ''postgres'' =
     Inr ''-- Transform: TopOrders\<newline>CREATE OR REPLACE VIEW "TopOrders" AS\<newline>SELECT\<newline>  *\<newline>FROM "Orders";\<newline>''
   \<and> \<not> str_includes (projr (exportTransform demoTransform ''postgres'')) ''GROUP BY''\<close>
  using clause_keywords_only_inside_rendered_parts
    [of demoTransform \<open>plainSource ''Orders''\<close> \<open>[]\<close> \<open>''GROUP BY''\<close> \<open>''postgres''\<close>]
  by (simp add: demoTransform_def export_defs)

text \<open>
  The claim C7 as first stated fails: a window column renders its own \<^verbatim>\<open>ORDER BY\<close>
  inside \<^verbatim>\<open>OVER (...)\<close>, and the name of the view is copied into the statement as it
  is, whatever words it spells.
\<close>

theorem omission_law_counterexample:
  \<open>filters rankedTransform = Some [] \<and> groupBy rankedTransform = None
   \<and> orderBy rankedTransform = None \<and> limit rankedTransform = None
   \<and> \<not> isl (exportTransform rankedTransform ''postgres'')
   \<and> str_includes (projr (exportTransform rankedTransform ''postgres'')) ''ORDER BY''
   \<and> filters whereTransform = Some [] \<and> groupBy whereTransform = None
   \<and> orderBy whereTransform = None \<and> limit whereTransform = None
   \<and> \<not> isl (exportTransform whereTransform ''postgres'')
   \<and> str_includes (projr (exportTransform whereTransform ''postgres'')) ''WHERE''
   \<and> str_includes (projr (exportTransform whereTransform ''postgres'')) ''LIMIT''\<close>
  unfolding ranked_out where_out
  by (simp add: rankedTransform_def whereTransform_def)

text \<open>
  Claim C3. A limit of 0 reaches the emitters (the statement \<^verbatim>\<open>limit: 0\<close> stores it),
  and both emit no \<^verbatim>\<open>LIMIT\<close> clause for it: \<^verbatim>\<open>!transform.limit\<close> holds for the number
  0 as it does for an absent limit. A limit of 10 is rendered as \<^verbatim>\<open>LIMIT 10\<close>.
\<close>

theorem limit_zero_emits_no_limit_clause:
  \<open>interpretLimit demoFrontEnd
      \<lparr>stmt_keyword = Some ''limit'', stmt_expression = Some (OtherNode 4), stmt_token = 9\<rparr>
      demoTransform
     = Inr ([], demoTransform\<lparr>limit := Some 0\<rparr>)
   \<and> buildLimitClause (demoTransform\<lparr>limit := Some 0\<rparr>) ''postgres'' = None
   \<and> exportTransform (demoTransform\<lparr>limit := Some 0\<rparr>) ''postgres'' =
       Inr ''-- Transform: TopOrders\<newline>CREATE OR REPLACE VIEW "TopOrders" AS\<newline>SELECT\<newline>  *\<newline>FROM "Orders";\<newline>''
   \<and> \<not> str_includes (projr (exportTransform (demoTransform\<lparr>limit := Some 0\<rparr>) ''postgres'')) ''LIMIT''
   \<and> generateDbtModel id (demoTransform\<lparr>limit := Some 0\<rparr>) =
       generateDbtModel id demoTransform
   \<and> buildLimitClause (demoTransform\<lparr>limit := Some 10\<rparr>) ''postgres'' = Some ''LIMIT 10''
   \<and> interpretLimit demoFrontEnd
        \<lparr>stmt_keyword = Some ''limit'', stmt_expression = Some (OtherNode 1), stmt_token = 9\<rparr>
        demoTransform
       = Inr ([\<lparr>code = INVALID_NAME, diagnostic = ''Limit must be a number'',
                nodeOrToken = \<lparr>stmt_keyword = Some ''limit'', stmt_expression = Some (OtherNode 1),
                                stmt_token = 9\<rparr>\<rparr>],
              demoTransform)\<close>
proof -
  have a: \<open>interpretLimit demoFrontEnd
        \<lparr>stmt_keyword = Some ''limit'', stmt_expression = Some (OtherNode 1), stmt_token = 9\<rparr>
        demoTransform
       = Inr ([\<lparr>code = INVALID_NAME, diagnostic = ''Limit must be a number'',
                nodeOrToken = \<lparr>stmt_keyword = Some ''limit'', stmt_expression = Some (OtherNode 1),
                                stmt_token = 9\<rparr>\<rparr>],
              demoTransform)\<close>
    by (simp add: interpretLimit_def demoFrontEnd_def parse_defs compileError_def)
  have i: \<open>interpretLimit demoFrontEnd
      \<lparr>stmt_keyword = Some ''limit'', stmt_expression = Some (OtherNode 4), stmt_token = 9\<rparr>
      demoTransform
     = Inr ([], demoTransform\<lparr>limit := Some 0\<rparr>)\<close>
    by (simp add: interpretLimit_def demoFrontEnd_def parse_defs)
  have b: \<open>buildLimitClause (demoTransform\<lparr>limit := Some 0\<rparr>) ''postgres'' = None\<close>
    by (simp add: buildLimitClause_def)
  have e: \<open>exportTransform (demoTransform\<lparr>limit := Some 0\<rparr>) ''postgres'' =
       Inr ''-- Transform: TopOrders\<newline>CREATE OR REPLACE VIEW "TopOrders" AS\<newline>SELECT\<newline>  *\<newline>FROM "Orders";\<newline>''\<close>
    by (simp add: demoTransform_def export_defs)
  have n: \<open>\<not> str_includes (projr (exportTransform (demoTransform\<lparr>limit := Some 0\<rparr>) ''postgres'')) ''LIMIT''\<close>
    unfolding e by simp
  have g: \<open>generateDbtModel id (demoTransform\<lparr>limit := Some 0\<rparr>) =
       generateDbtModel id demoTransform\<close>
    by (simp add: demoTransform_def dbt_defs export_defs)
  have t: \<open>buildLimitClause (demoTransform\<lparr>limit := Some 10\<rparr>) ''postgres'' = Some ''LIMIT 10''\<close>
    by (simp add: buildLimitClause_def string_of_int_def string_of_nat.simps digit_char_def)
  show ?thesis
    by (intro conjI) (fact i b e n g t a)+
qed

text \<open>
  Claim C9. An aggregation column whose \<^verbatim>\<open>orderBy\<close> is non-empty while its
  \<^verbatim>\<open>partitionBy\<close> is empty or unset is rendered by both emitters as the plain
  \<^verbatim>\<open>FUNC(arg)\<close> followed by the alias, with no \<^verbatim>\<open>OVER\<close> and no \<^verbatim>\<open>ORDER BY\<close>: the text is
  the same as that of the column without its \<^verbatim>\<open>orderBy\<close>.
\<close>

theorem buildAggregationColumn_orderBy_discarded:
  assumes \<open>aggregation col = Some agg\<close>
    and \<open>nonEmpty (agg_orderBy agg)\<close>
    and \<open>\<not> nonEmpty (agg_partitionBy agg)\<close>
  shows \<open>buildAggregationColumn col dialect =
           Inr (''  '' @ toUpperCase (agg_function agg) @ ''('' @ columnRef col @ '')''
                  @ aliasSuffix (col_alias col))
       \<and> dbt_buildAggregationColumn col =
           Inr (''  '' @ toUpperCase (agg_function agg) @ ''('' @ dbt_columnRef col @ '')''
                  @ dbt_aliasSuffix (col_alias col))
       \<and> buildAggregationColumn col dialect =
           buildAggregationColumn (col\<lparr>aggregation := Some (agg\<lparr>agg_orderBy := None\<rparr>)\<rparr>) dialect
       \<and> dbt_buildAggregationColumn col =
           dbt_buildAggregationColumn (col\<lparr>aggregation := Some (agg\<lparr>agg_orderBy := None\<rparr>)\<rparr>)
       \<and> selectColumn dialect col = buildAggregationColumn col dialect
       \<and> dbt_selectColumn col = dbt_buildAggregationColumn col\<close>
  using assms
  by (simp add: buildAggregationColumn_def dbt_buildAggregationColumn_def selectColumn_def
      dbt_selectColumn_def columnRef_def dbt_columnRef_def Let_def)


theorem buildAggregationColumn_orderBy_discarded_witness:
  \<open>buildAggregationColumn demoAggColumn ''postgres'' = Inr ''  SUM("Orders"."total") AS "running"''
   \<and> dbt_buildAggregationColumn demoAggColumn = Inr ''  SUM(Orders.total) AS running''\<close>
  using buildAggregationColumn_orderBy_discarded
    [of demoAggColumn
        \<open>\<lparr>agg_function = ''sum'', agg_partitionBy = None,
          agg_orderBy = Some [\<lparr>ob_table = ''Orders'', ob_column = ''date'',
                               ob_direction = DESC\<rparr>]\<rparr>\<close>
        \<open>''postgres''\<close>]
  by (simp add: demoAggColumn_def nonEmpty_def columnRef_def dbt_columnRef_def aliasSuffix_def
      dbt_aliasSuffix_def truthy_def toUpperCase_def toUpperChar_def)

text \<open>
  Claim C4. A window column is rendered by the SQL emitter as the uppercased
  function name, an argument list that is empty when that name is one of
  \<^verbatim>\<open>ROW_NUMBER\<close>, \<^verbatim>\<open>RANK\<close>, \<^verbatim>\<open>DENSE_RANK\<close>, \<^verbatim>\<open>PERCENT_RANK\<close>, \<^verbatim>\<open>CUME_DIST\<close> and is the
  column reference for every other name, an \<^verbatim>\<open>OVER (...)\<close> clause, and the alias. The
  column reference is never the empty string, so the argument list is empty for
  those five names only. Without partitionBy, orderBy and frame the clause is
  \<^verbatim>\<open>OVER ()\<close>.
\<close>

theorem buildWindowColumn_shape:
  assumes \<open>window col = Some w\<close>
  shows \<open>(\<exists>over.
           buildWindowColumn col dialect =
             Inr (''  '' @ toUpperCase (win_function w) @ ''(''
                    @ (if toUpperCase (win_function w) \<in>
                            set [''ROW_NUMBER'', ''RANK'', ''DENSE_RANK'', ''PERCENT_RANK'', ''CUME_DIST'']
                       then [] else columnRef col)
                    @ '') OVER ('' @ over @ '')'' @ aliasSuffix (col_alias col)))
       \<and> columnRef col \<noteq> []
       \<and> (\<not> nonEmpty (win_partitionBy w) \<and> \<not> nonEmpty (win_orderBy w) \<and> \<not> truthy (win_frame w)
            \<longrightarrow> buildWindowColumn col dialect =
                  Inr (''  '' @ toUpperCase (win_function w) @ ''(''
                         @ (if toUpperCase (win_function w) \<in>
                                 set [''ROW_NUMBER'', ''RANK'', ''DENSE_RANK'', ''PERCENT_RANK'',
                                      ''CUME_DIST'']
                            then [] else columnRef col)
                         @ '') OVER ()'' @ aliasSuffix (col_alias col)))\<close>
proof -
  from buildWindowColumn_unfolded [OF assms, of dialect] obtain over where
    eq: \<open>buildWindowColumn col dialect =
             Inr (''  '' @ toUpperCase (win_function w) @ ''(''
                    @ (if toUpperCase (win_function w) \<in> set rankFamily then [] else columnRef col)
                    @ '') OVER ('' @ over @ '')'' @ aliasSuffix (col_alias col))\<close>
    and ov: \<open>\<not> nonEmpty (win_partitionBy w) \<and> \<not> nonEmpty (win_orderBy w) \<and> \<not> truthy (win_frame w)
              \<longrightarrow> over = []\<close>
    by blast
  define args where
    \<open>args = (if toUpperCase (win_function w) \<in>
                    set [''ROW_NUMBER'', ''RANK'', ''DENSE_RANK'', ''PERCENT_RANK'', ''CUME_DIST'']
               then [] else columnRef col)\<close>
  have eq': \<open>buildWindowColumn col dialect =
             Inr (''  '' @ toUpperCase (win_function w) @ ''('' @ args
                    @ '') OVER ('' @ over @ '')'' @ aliasSuffix (col_alias col))\<close>
    using eq unfolding rankFamily_def args_def .
  then have e1: \<open>\<exists>over.
           buildWindowColumn col dialect =
             Inr (''  '' @ toUpperCase (win_function w) @ ''('' @ args
                    @ '') OVER ('' @ over @ '')'' @ aliasSuffix (col_alias col))\<close>
    by (rule exI [of _ over])
  have e3: \<open>\<not> nonEmpty (win_partitionBy w) \<and> \<not> nonEmpty (win_orderBy w) \<and> \<not> truthy (win_frame w)
            \<longrightarrow> buildWindowColumn col dialect =
                  Inr (''  '' @ toUpperCase (win_function w) @ ''('' @ args
                         @ '') OVER ()'' @ aliasSuffix (col_alias col))\<close>
  proof
    assume \<open>\<not> nonEmpty (win_partitionBy w) \<and> \<not> nonEmpty (win_orderBy w) \<and> \<not> truthy (win_frame w)\<close>
    with ov have \<open>over = []\<close> by blast
    with eq' show \<open>buildWindowColumn col dialect =
                  Inr (''  '' @ toUpperCase (win_function w) @ ''('' @ args
                         @ '') OVER ()'' @ aliasSuffix (col_alias col))\<close>
      by simp
  qed
  show ?thesis
    unfolding args_def [symmetric]
    by (intro conjI e1 e3) (rule columnRef_nonempty)
qed

theorem buildWindowColumn_shape_witness:
  \<open>buildWindowColumn demoWindowColumn ''postgres'' = Inr ''  ROW_NUMBER() OVER () AS "rn"''\<close>
proof -
  let ?w = \<open>\<lparr>win_function = ''row_number'', win_partitionBy = None, win_orderBy = None,
              win_frame = None\<rparr>\<close>
  have w: \<open>window demoWindowColumn = Some ?w\<close>
    by (simp add: demoWindowColumn_def)
  have u: \<open>toUpperCase (win_function ?w) = ''ROW_NUMBER''\<close>
    by (simp add: toUpperCase_def toUpperChar_def)
  have n: \<open>\<not> nonEmpty (win_partitionBy ?w) \<and> \<not> nonEmpty (win_orderBy ?w) \<and> \<not> truthy (win_frame ?w)\<close>
    by (simp add: nonEmpty_def truthy_def)
  have a: \<open>aliasSuffix (col_alias demoWindowColumn) = '' AS "rn"''\<close>
    by (simp add: demoWindowColumn_def aliasSuffix_def truthy_def)
  from buildWindowColumn_shape [OF w, of \<open>''postgres''\<close>] n
  have \<open>buildWindowColumn demoWindowColumn ''postgres'' =
          Inr (''  '' @ toUpperCase (win_function ?w) @ ''(''
                 @ (if toUpperCase (win_function ?w) \<in>
                         set [''ROW_NUMBER'', ''RANK'', ''DENSE_RANK'', ''PERCENT_RANK'',
                              ''CUME_DIST'']
                    then [] else columnRef demoWindowColumn)
                 @ '') OVER ()'' @ aliasSuffix (col_alias demoWindowColumn))\<close>
    by blast
  then show ?thesis
    unfolding u a by simp
qed

text \<open>
  Claim C5. The order-by parser returns what the specification describes for the
  fragments of the expression (none when the decomposition fails): a final
  \<^verbatim>\<open>asc\<close> or \<^verbatim>\<open>desc\<close>, in any letter case, is popped and is the direction, \<^verbatim>\<open>ASC\<close>
  being the default; exactly two remaining fragments give one term, any other
  number gives none. The parser has no diagnostic to return, and an \<^verbatim>\<open>order_by\<close>
  statement with an expression appends the terms and reports nothing.
\<close>

theorem parseOrderBy_terms:
  \<open>parseOrderBy fe expr = spec_orderTerms (unwrap_or (destructureComplexVariable fe expr) [])
   \<and> length (parseOrderBy fe expr) \<le> 1
   \<and> (stmt_expression statement = Some expr \<longrightarrow>
        interpretOrderBy fe statement transform =
          Inr ([], transform\<lparr>orderBy := Some (orEmpty (orderBy transform) @ parseOrderBy fe expr)\<rparr>))\<close>
proof -
  have b: \<open>length (parseOrderBy fe expr) \<le> 1\<close>
    by (simp add: parseOrderBy_def Let_def)
  have c: \<open>stmt_expression statement = Some expr \<longrightarrow>
        interpretOrderBy fe statement transform =
          Inr ([], transform\<lparr>orderBy := Some (orEmpty (orderBy transform) @ parseOrderBy fe expr)\<rparr>)\<close>
    by (simp add: interpretOrderBy_def)
  from parseOrderBy_spec [of fe expr] b c show ?thesis by blast
qed

theorem parseOrderBy_terms_witness:
  \<open>parseOrderBy demoFrontEnd (OtherNode 2)
     = [\<lparr>ob_table = ''Orders'', ob_column = ''total'', ob_direction = DESC\<rparr>]
   \<and> parseOrderBy demoFrontEnd (OtherNode 3)
     = [\<lparr>ob_table = ''Orders'', ob_column = ''total'', ob_direction = ASC\<rparr>]
   \<and> parseOrderBy demoFrontEnd (OtherNode 0) = []
   \<and> interpretOrderBy demoFrontEnd
       \<lparr>stmt_keyword = Some ''order_by'', stmt_expression = Some (OtherNode 2), stmt_token = 5\<rparr>
       demoTransform
     = Inr ([], demoTransform\<lparr>orderBy :=
               Some [\<lparr>ob_table = ''Orders'', ob_column = ''total'', ob_direction = DESC\<rparr>]\<rparr>)\<close>
  using
    parseOrderBy_terms
      [of demoFrontEnd \<open>OtherNode 2\<close>
          \<open>\<lparr>stmt_keyword = Some ''order_by'', stmt_expression = Some (OtherNode 2), stmt_token = 5\<rparr>\<close>
          demoTransform]
    parseOrderBy_terms
      [of demoFrontEnd \<open>OtherNode 3\<close>
          \<open>\<lparr>stmt_keyword = Some ''order_by'', stmt_expression = Some (OtherNode 3), stmt_token = 5\<rparr>\<close>
          demoTransform]
    parseOrderBy_terms
      [of demoFrontEnd \<open>OtherNode 0\<close>
          \<open>\<lparr>stmt_keyword = Some ''order_by'', stmt_expression = Some (OtherNode 0), stmt_token = 5\<rparr>\<close>
          demoTransform]
  by (simp add: demoFrontEnd_def demoTransform_def unwrap_or_def orEmpty_def spec_orderTerms_def
      spec_isDirection_def toLowerCase_def toLowerChar_def Let_def)

text \<open>
  Claim C10. When the single-token extraction from the expression of a limit statement
  fails, the interpreter falls back to the token \<^verbatim>\<open>'0'\<close>, which parses to the integer 0,
  stores 0 as the Transform's limit and returns no diagnostic.
\<close>

theorem interpretLimit_extraction_failure:
  assumes \<open>stmt_expression statement = Some expr\<close>
    and \<open>extractVariableFromExpression fe expr = None\<close>
  shows \<open>unwrap_or (extractVariableFromExpression fe expr) ''0'' = ''0''
       \<and> parseInt ''0'' = Some 0
       \<and> interpretLimit fe statement transform = Inr ([], transform\<lparr>limit := Some 0\<rparr>)\<close>
proof -
  have p: \<open>parseInt ''0'' = Some 0\<close>
    by (simp add: parseInt_def isWhiteSpace_def isDigit_def digitValue_def digitsValue_def)
  from assms p show ?thesis
    by (simp add: interpretLimit_def unwrap_or_def)
qed

theorem interpretLimit_extraction_failure_witness:
  \<open>interpretLimit demoFrontEnd
      \<lparr>stmt_keyword = Some ''limit'', stmt_expression = Some (OtherNode 0), stmt_token = 7\<rparr>
      demoTransform
    = Inr ([], demoTransform\<lparr>limit := Some 0\<rparr>)\<close>
  using interpretLimit_extraction_failure
    [of \<open>\<lparr>stmt_keyword = Some ''limit'', stmt_expression = Some (OtherNode 0), stmt_token = 7\<rparr>\<close>
        \<open>OtherNode 0\<close> demoFrontEnd demoTransform]
  by (simp add: demoFrontEnd_def)

text \<open>
  Claim C6. A statement whose keyword, lowercased, is none of \<^verbatim>\<open>join\<close>, \<^verbatim>\<open>where\<close>,
  \<^verbatim>\<open>group_by\<close>, \<^verbatim>\<open>order_by\<close>, \<^verbatim>\<open>limit\<close>, \<^verbatim>\<open>using\<close>, \<^verbatim>\<open>add\<close> yields exactly one
  \<^verbatim>\<open>UNEXPECTED_TOKEN\<close> diagnostic, whose message names the lowercased keyword and which
  points at the statement, and the Transform is returned as it was, in every field.
\<close>

theorem interpretStatement_unknown_keyword:
  assumes \<open>stmt_keyword statement = Some kw\<close>
    and \<open>toLowerCase kw \<notin>
           set [''join'', ''where'', ''group_by'', ''order_by'', ''limit'', ''using'', ''add'']\<close>
  shows \<open>interpretStatement fe statement transform =
           Inr ([\<lparr>code = UNEXPECTED_TOKEN,
                   diagnostic = ''Unknown transform keyword: '' @ toLowerCase kw,
                   nodeOrToken = statement\<rparr>], transform)\<close>
  using assms
  by (simp add: interpretStatement_def compileError_def)

theorem interpretStatement_unknown_keyword_witness:
  \<open>interpretStatement demoFrontEnd
      \<lparr>stmt_keyword = Some ''Having'', stmt_expression = Some (OtherNode 0), stmt_token = 3\<rparr>
      demoTransform
    = Inr ([\<lparr>code = UNEXPECTED_TOKEN,
             diagnostic = ''Unknown transform keyword: having'',
             nodeOrToken =
               \<lparr>stmt_keyword = Some ''Having'', stmt_expression = Some (OtherNode 0), stmt_token = 3\<rparr>\<rparr>],
           demoTransform)\<close>
  using interpretStatement_unknown_keyword
    [of \<open>\<lparr>stmt_keyword = Some ''Having'', stmt_expression = Some (OtherNode 0), stmt_token = 3\<rparr>\<close>
        \<open>''Having''\<close> demoFrontEnd demoTransform]
  by (simp add: toLowerCase_def toLowerChar_def)

end
